theory Spec2Isabelle
  imports Main
begin

section \<open>Go strings\<close>

text \<open>
  A Go string is a sequence of bytes, here a \<^typ>\<open>string\<close> (a list of 8-bit characters).
  Text outside ASCII is written as its UTF-8 bytes, the way the Go compiler stores the
  literals of the source. The strings that reach the classifier come out of the XML and JSON
  decoders and are valid UTF-8.
\<close>

text \<open>
  What the program takes from the Unicode tables of the Go runtime: the lower-casing of a
  string that has a byte outside ASCII (\<^verbatim>\<open>strings.Map(unicode.ToLower, s)\<close>) and the
  match of the regular expression \<^verbatim>\<open>[\p{Han}]\<close>. The tables are not part of the repository;
  every definition below takes them as the parameter \<open>U\<close>.
\<close>

record unicode =
  mapToLower :: "string \<Rightarrow> string"
  matchHan :: "string \<Rightarrow> bool"

definition isASCII :: "string \<Rightarrow> bool" where
  "isASCII s = list_all (\<lambda>c. (of_char c :: nat) < 128) s"

definition lowerByte :: "char \<Rightarrow> char" where
  "lowerByte c =
     (if 65 \<le> (of_char c :: nat) \<and> (of_char c :: nat) \<le> 90
      then char_of (of_char c + (32 :: nat)) else c)"

text \<open>
  \<^verbatim>\<open>strings.ToLower\<close>: a string of ASCII bytes is lowered byte by byte, any other string
  goes through the Unicode tables.
\<close>

definition ToLower :: "unicode \<Rightarrow> string \<Rightarrow> string" where
  "ToLower U s = (if isASCII s then map lowerByte s else mapToLower U s)"

fun HasPrefix :: "string \<Rightarrow> string \<Rightarrow> bool" where
  "HasPrefix s [] = True"
| "HasPrefix [] (p # ps) = False"
| "HasPrefix (c # cs) (p # ps) = (c = p \<and> HasPrefix cs ps)"

text \<open>\<^verbatim>\<open>strings.Contains(s, substr)\<close>: \<open>substr\<close> occurs in \<open>s\<close> as a run of bytes.\<close>

fun Contains :: "string \<Rightarrow> string \<Rightarrow> bool" where
  "Contains [] substr = (substr = [])"
| "Contains (c # cs) substr = (HasPrefix (c # cs) substr \<or> Contains cs substr)"

text \<open>
  A concrete instance of the tables, to run the model on examples: lower-casing leaves the
  bytes outside ASCII alone (right for text in uncased scripts such as Han and kana), and the
  Han match looks for a UTF-8 sequence of the block U+4E00 to U+9FFF (lead byte E4 with a
  second byte from B8 on, or a lead byte E5 to E9).
\<close>

fun hasCJKIdeograph :: "string \<Rightarrow> bool" where
  "hasCJKIdeograph (b0 # b1 # bs) =
     ((of_char b0 = (228 :: nat) \<and> 184 \<le> (of_char b1 :: nat) \<and> (of_char b1 :: nat) \<le> 191)
      \<or> (229 \<le> (of_char b0 :: nat) \<and> (of_char b0 :: nat) \<le> 233)
      \<or> hasCJKIdeograph (b1 # bs))"
| "hasCJKIdeograph bs = False"

definition cjkTables :: unicode where
  "cjkTables = \<lparr> mapToLower = map lowerByte, matchHan = hasCJKIdeograph \<rparr>"


section \<open>Errors\<close>

text \<open>One constructor for each error the modelled functions build or pass on.\<close>

datatype error =
    ErrNoCountry              \<comment> \<open>DetermineCategory: no usable country information\<close>
  | ErrParseNFO               \<comment> \<open>parser.ParseNFO failed\<close>
  | ErrReadDir                \<comment> \<open>os.ReadDir failed\<close>
  | ErrService                \<comment> \<open>the metadata service did not answer with success\<close>
  | ErrScan                   \<comment> \<open>database/sql: a NULL scanned into a plain Go value\<close>
  | ErrMkdir                  \<comment> \<open>os.MkdirAll failed\<close>
  | ErrRename                 \<comment> \<open>os.Rename failed\<close>
  | ErrCreate                 \<comment> \<open>os.Create failed: the path is a directory\<close>
  | ErrSourceMissing          \<comment> \<open>MoveDirectory: the source does not exist\<close>
  | ErrWrapped string error   \<comment> \<open>fmt.Errorf with the verb %w: a context and its cause\<close>


section \<open>Locale classifier\<close>

subsection \<open>Category constants\<close>

definition CategoryCnMovie :: string where "CategoryCnMovie = ''CnMovie''"
definition CategoryCnShow :: string where "CategoryCnShow = ''CnShow''"
definition CategoryEnMovie :: string where "CategoryEnMovie = ''EnMovie''"
definition CategoryEnShow :: string where "CategoryEnShow = ''EnShow''"
definition CategoryJpKrShow :: string where "CategoryJpKrShow = ''Jp&KrShow''"
definition CategoryJpKrMovie :: string where "CategoryJpKrMovie = ''Jp&KrMovie''"
definition CategoryDmMovie :: string where "CategoryDmMovie = ''DmMovie''"
definition CategoryDmShow :: string where "CategoryDmShow = ''DmShow''"
definition CategoryJlShow :: string where "CategoryJlShow = ''JlShow''"
definition CategoryXSShow :: string where "CategoryXSShow = ''XSShow''"

lemmas Category_defs =
  CategoryCnMovie_def CategoryCnShow_def CategoryEnMovie_def CategoryEnShow_def
  CategoryJpKrShow_def CategoryJpKrMovie_def CategoryDmMovie_def CategoryDmShow_def
  CategoryJlShow_def CategoryXSShow_def

subsection \<open>Keywords of the source written in Chinese, as UTF-8 bytes\<close>

text \<open>Each constant is one string literal of \<^verbatim>\<open>DetermineCategory\<close>; the comment gives its
  code points and meaning.\<close>

definition zhDocumentary :: string where \<comment> \<open>U+7EAA U+5F55 U+7247, documentary\<close>
  "zhDocumentary = [CHR 0xE7, CHR 0xBA, CHR 0xAA, CHR 0xE5, CHR 0xBD, CHR 0x95, CHR 0xE7, CHR 0x89, CHR 0x87]"

definition zhVariety :: string where \<comment> \<open>U+7EFC U+827A U+8282 U+76EE, variety programme\<close>
  "zhVariety = [CHR 0xE7, CHR 0xBB, CHR 0xBC, CHR 0xE8, CHR 0x89, CHR 0xBA, CHR 0xE8, CHR 0x8A, CHR 0x82,
     CHR 0xE7, CHR 0x9B, CHR 0xAE]"

definition zhRealityShow :: string where \<comment> \<open>U+771F U+4EBA U+79C0, reality show\<close>
  "zhRealityShow = [CHR 0xE7, CHR 0x9C, CHR 0x9F, CHR 0xE4, CHR 0xBA, CHR 0xBA, CHR 0xE7, CHR 0xA7, CHR 0x80]"

definition zhRealityProgramme :: string where \<comment> \<open>U+771F U+4EBA U+8282 U+76EE, reality programme\<close>
  "zhRealityProgramme = [CHR 0xE7, CHR 0x9C, CHR 0x9F, CHR 0xE4, CHR 0xBA, CHR 0xBA, CHR 0xE8, CHR 0x8A,
     CHR 0x82, CHR 0xE7, CHR 0x9B, CHR 0xAE]"

definition zhTalkShow :: string where \<comment> \<open>U+8131 U+53E3 U+79C0, talk show\<close>
  "zhTalkShow = [CHR 0xE8, CHR 0x84, CHR 0xB1, CHR 0xE5, CHR 0x8F, CHR 0xA3, CHR 0xE7, CHR 0xA7, CHR 0x80]"

definition zhGameShow :: string where \<comment> \<open>U+6E38 U+620F U+8282 U+76EE, game show\<close>
  "zhGameShow = [CHR 0xE6, CHR 0xB8, CHR 0xB8, CHR 0xE6, CHR 0x88, CHR 0x8F, CHR 0xE8, CHR 0x8A, CHR 0x82,
     CHR 0xE7, CHR 0x9B, CHR 0xAE]"

definition zhCompetition :: string where \<comment> \<open>U+7ADE U+8D5B U+8282 U+76EE, competition programme\<close>
  "zhCompetition = [CHR 0xE7, CHR 0xAB, CHR 0x9E, CHR 0xE8, CHR 0xB5, CHR 0x9B, CHR 0xE8, CHR 0x8A, CHR 0x82,
     CHR 0xE7, CHR 0x9B, CHR 0xAE]"

definition zhTalentShow :: string where \<comment> \<open>U+9009 U+79C0 U+8282 U+76EE, talent show\<close>
  "zhTalentShow = [CHR 0xE9, CHR 0x80, CHR 0x89, CHR 0xE7, CHR 0xA7, CHR 0x80, CHR 0xE8, CHR 0x8A, CHR 0x82,
     CHR 0xE7, CHR 0x9B, CHR 0xAE]"

definition zhAnime :: string where \<comment> \<open>U+52A8 U+6F2B, anime\<close>
  "zhAnime = [CHR 0xE5, CHR 0x8A, CHR 0xA8, CHR 0xE6, CHR 0xBC, CHR 0xAB]"

definition zhAnimation :: string where \<comment> \<open>U+52A8 U+753B, animation\<close>
  "zhAnimation = [CHR 0xE5, CHR 0x8A, CHR 0xA8, CHR 0xE7, CHR 0x94, CHR 0xBB]"

definition zhJapan :: string where \<comment> \<open>U+65E5 U+672C, Japan\<close>
  "zhJapan = [CHR 0xE6, CHR 0x97, CHR 0xA5, CHR 0xE6, CHR 0x9C, CHR 0xAC]"

definition zhJapanState :: string where \<comment> \<open>U+65E5 U+672C U+56FD, State of Japan\<close>
  "zhJapanState = [CHR 0xE6, CHR 0x97, CHR 0xA5, CHR 0xE6, CHR 0x9C, CHR 0xAC, CHR 0xE5, CHR 0x9B, CHR 0xBD]"

definition zhKorea :: string where \<comment> \<open>U+97E9 U+56FD, Korea\<close>
  "zhKorea = [CHR 0xE9, CHR 0x9F, CHR 0xA9, CHR 0xE5, CHR 0x9B, CHR 0xBD]"

definition zhRepublicOfKorea :: string where \<comment> \<open>U+5927 U+97E9 U+6C11 U+56FD, Republic of Korea\<close>
  "zhRepublicOfKorea = [CHR 0xE5, CHR 0xA4, CHR 0xA7, CHR 0xE9, CHR 0x9F, CHR 0xA9, CHR 0xE6, CHR 0xB0,
     CHR 0x91, CHR 0xE5, CHR 0x9B, CHR 0xBD]"

definition zhChinaMainland :: string where \<comment> \<open>U+4E2D U+56FD U+5927 U+9646, Chinese mainland\<close>
  "zhChinaMainland = [CHR 0xE4, CHR 0xB8, CHR 0xAD, CHR 0xE5, CHR 0x9B, CHR 0xBD, CHR 0xE5, CHR 0xA4,
     CHR 0xA7, CHR 0xE9, CHR 0x99, CHR 0x86]"

definition zhChinaHongKong :: string where \<comment> \<open>U+4E2D U+56FD U+9999 U+6E2F, Hong Kong, China\<close>
  "zhChinaHongKong = [CHR 0xE4, CHR 0xB8, CHR 0xAD, CHR 0xE5, CHR 0x9B, CHR 0xBD, CHR 0xE9, CHR 0xA6,
     CHR 0x99, CHR 0xE6, CHR 0xB8, CHR 0xAF]"

definition zhHongKongSAR :: string where
  \<comment> \<open>U+9999 U+6E2F U+7279 U+522B U+884C U+653F U+533A, Hong Kong Special Administrative Region\<close>
  "zhHongKongSAR = [CHR 0xE9, CHR 0xA6, CHR 0x99, CHR 0xE6, CHR 0xB8, CHR 0xAF, CHR 0xE7, CHR 0x89,
     CHR 0xB9, CHR 0xE5, CHR 0x88, CHR 0xAB, CHR 0xE8, CHR 0xA1, CHR 0x8C, CHR 0xE6, CHR 0x94, CHR 0xBF,
     CHR 0xE5, CHR 0x8C, CHR 0xBA]"

definition zhChinaTaiwan :: string where \<comment> \<open>U+4E2D U+56FD U+53F0 U+6E7E, Taiwan, China\<close>
  "zhChinaTaiwan = [CHR 0xE4, CHR 0xB8, CHR 0xAD, CHR 0xE5, CHR 0x9B, CHR 0xBD, CHR 0xE5, CHR 0x8F,
     CHR 0xB0, CHR 0xE6, CHR 0xB9, CHR 0xBE]"

definition zhTaiwanRegion :: string where \<comment> \<open>U+53F0 U+6E7E U+5730 U+533A, Taiwan region\<close>
  "zhTaiwanRegion = [CHR 0xE5, CHR 0x8F, CHR 0xB0, CHR 0xE6, CHR 0xB9, CHR 0xBE, CHR 0xE5, CHR 0x9C,
     CHR 0xB0, CHR 0xE5, CHR 0x8C, CHR 0xBA]"

definition zhHongKong :: string where \<comment> \<open>U+9999 U+6E2F, Hong Kong\<close>
  "zhHongKong = [CHR 0xE9, CHR 0xA6, CHR 0x99, CHR 0xE6, CHR 0xB8, CHR 0xAF]"

definition zhTaiwan :: string where \<comment> \<open>U+53F0 U+6E7E, Taiwan\<close>
  "zhTaiwan = [CHR 0xE5, CHR 0x8F, CHR 0xB0, CHR 0xE6, CHR 0xB9, CHR 0xBE]"

definition zhChina :: string where \<comment> \<open>U+4E2D U+56FD, China\<close>
  "zhChina = [CHR 0xE4, CHR 0xB8, CHR 0xAD, CHR 0xE5, CHR 0x9B, CHR 0xBD]"

definition zhPRC :: string where
  \<comment> \<open>U+4E2D U+534E U+4EBA U+6C11 U+5171 U+548C U+56FD, People's Republic of China\<close>
  "zhPRC = [CHR 0xE4, CHR 0xB8, CHR 0xAD, CHR 0xE5, CHR 0x8D, CHR 0x8E, CHR 0xE4, CHR 0xBA, CHR 0xBA,
     CHR 0xE6, CHR 0xB0, CHR 0x91, CHR 0xE5, CHR 0x85, CHR 0xB1, CHR 0xE5, CHR 0x92, CHR 0x8C, CHR 0xE5,
     CHR 0x9B, CHR 0xBD]"

lemmas zh_defs =
  zhDocumentary_def zhVariety_def zhRealityShow_def zhRealityProgramme_def zhTalkShow_def
  zhGameShow_def zhCompetition_def zhTalentShow_def zhAnime_def zhAnimation_def zhJapan_def
  zhJapanState_def zhKorea_def zhRepublicOfKorea_def zhChinaMainland_def zhChinaHongKong_def
  zhHongKongSAR_def zhChinaTaiwan_def zhTaiwanRegion_def zhHongKong_def zhTaiwan_def zhChina_def
  zhPRC_def

subsection \<open>DetermineCategory\<close>

definition varietyKeywords :: "string list" where
  "varietyKeywords =
     [zhVariety, ''variety'',
      zhRealityShow, ''reality'',
      zhRealityProgramme, ''reality show'',
      zhTalkShow, ''talk show'',
      zhGameShow, ''game-show'',
      zhCompetition, ''competition'',
      zhTalentShow, ''talent show'']"

text \<open>
  The three loops over \<open>genres\<close> return at the first genre that matches, with a result that
  does not depend on which genre it was: each is \<^const>\<open>list_ex\<close>. The loop over
  \<open>countries\<close> returns in its first iteration on every path, so only the head of the list is
  ever inspected; the error is reached when the list is empty.
\<close>

definition DetermineCategory :: "unicode \<Rightarrow> string list \<Rightarrow> bool \<Rightarrow> string list \<Rightarrow> error + string" where
  "DetermineCategory U countries isTVShow genres =
     (if list_ex (\<lambda>genre. Contains (ToLower U genre) zhDocumentary
                          \<or> Contains (ToLower U genre) ''documentary'') genres
      then Inr CategoryJlShow
      else if list_ex (\<lambda>genre. let genreLower = ToLower U genre
                               in list_ex (\<lambda>keyword. Contains genreLower keyword) varietyKeywords) genres
      then Inr CategoryXSShow
      else if list_ex (\<lambda>genre. Contains (ToLower U genre) zhAnime
                               \<or> Contains (ToLower U genre) zhAnimation
                               \<or> Contains (ToLower U genre) ''animation'') genres
      then (if isTVShow then Inr CategoryDmShow else Inr CategoryDmMovie)
      else (case countries of
              [] \<Rightarrow> Inl ErrNoCountry
            | country # _ \<Rightarrow>
                (let countryLower = ToLower U country in
                 if Contains countryLower zhJapan
                    \<or> Contains countryLower zhJapanState
                    \<or> Contains countryLower ''japan''
                    \<or> Contains countryLower zhKorea
                    \<or> Contains countryLower zhRepublicOfKorea
                    \<or> Contains countryLower ''korea''
                    \<or> Contains countryLower ''south korea''
                 then (if isTVShow then Inr CategoryJpKrShow else Inr CategoryJpKrMovie)
                 else if Contains countryLower zhChinaMainland
                    \<or> Contains countryLower zhChinaHongKong
                    \<or> Contains countryLower zhHongKongSAR
                    \<or> Contains countryLower zhChinaTaiwan
                    \<or> Contains countryLower zhTaiwanRegion
                    \<or> Contains countryLower zhHongKong
                    \<or> Contains countryLower zhTaiwan
                    \<or> Contains countryLower zhChina
                    \<or> Contains countryLower zhPRC
                    \<or> Contains countryLower ''china''
                    \<or> Contains countryLower ''hong kong''
                    \<or> Contains countryLower ''taiwan''
                 then (if isTVShow then Inr CategoryCnShow else Inr CategoryCnMovie)
                 else (if isTVShow then Inr CategoryEnShow else Inr CategoryEnMovie))))"

subsection \<open>The keyword sets the specification speaks of\<close>

text \<open>
  The specification names four keyword sets; these definitions collect them, and a string
  matches a set when its lower-cased form contains one of the keywords.
\<close>

definition documentaryKeywords :: "string list" where
  "documentaryKeywords = [zhDocumentary, ''documentary'']"

definition animeKeywords :: "string list" where
  "animeKeywords = [zhAnime, zhAnimation, ''animation'']"

definition japanKoreaKeywords :: "string list" where
  "japanKoreaKeywords =
     [zhJapan, zhJapanState, ''japan'', zhKorea, zhRepublicOfKorea, ''korea'', ''south korea'']"

definition chinaKeywords :: "string list" where
  "chinaKeywords =
     [zhChinaMainland, zhChinaHongKong, zhHongKongSAR, zhChinaTaiwan, zhTaiwanRegion, zhHongKong,
      zhTaiwan, zhChina, zhPRC, ''china'', ''hong kong'', ''taiwan'']"

definition matchesKeywords :: "unicode \<Rightarrow> string list \<Rightarrow> string \<Rightarrow> bool" where
  "matchesKeywords U keywords s = list_ex (Contains (ToLower U s)) keywords"

definition hasGenreOverride :: "unicode \<Rightarrow> string list \<Rightarrow> bool" where
  "hasGenreOverride U genres =
     list_ex (matchesKeywords U (documentaryKeywords @ varietyKeywords @ animeKeywords)) genres"

definition countryCategory :: "unicode \<Rightarrow> string \<Rightarrow> bool \<Rightarrow> string" where
  "countryCategory U country isTVShow =
     (if matchesKeywords U japanKoreaKeywords country
      then (if isTVShow then CategoryJpKrShow else CategoryJpKrMovie)
      else if matchesKeywords U chinaKeywords country
      then (if isTVShow then CategoryCnShow else CategoryCnMovie)
      else (if isTVShow then CategoryEnShow else CategoryEnMovie))"


section \<open>Catalog repository\<close>

subsection \<open>Records\<close>

text \<open>A \<^verbatim>\<open>time.Time\<close> is a point on a discrete time line.\<close>

type_synonym time = nat

text \<open>The Go structs of package database. The three structs share field names in the
  source; the fields of the two missing-item structs carry a prefix here.\<close>

record MediaRecord =
  ID :: int
  FileName :: string
  Title :: string
  OriginalTitle :: string
  Year :: string
  Country :: string
  Genres :: string
  Actors :: string
  Category :: string
  SourcePath :: string
  TargetPath :: string
  ProcessedAt :: time
  UpdatedAt :: time
  Runtime :: string
  Plot :: string
  IMDbID :: string
  TMDbID :: string
  Season :: string
  Episode :: string
  Director :: string
  Writer :: string
  Rating :: string
  Resolution :: string
  Version :: int
  IsComplete :: bool

record MissingSeason =
  ms_ID :: int
  ms_MediaID :: int
  ms_Title :: string
  ms_OriginalTitle :: string
  ms_TMDbID :: string
  ms_Season :: int
  ms_DetectedAt :: time
  ms_UpdatedAt :: time
  ms_Status :: string

record MissingEpisode =
  me_ID :: int
  me_MediaID :: int
  me_Title :: string
  me_OriginalTitle :: string
  me_TMDbID :: string
  me_Season :: int
  me_Episode :: int
  me_DetectedAt :: time
  me_UpdatedAt :: time
  me_Status :: string

text \<open>
  A stored row of the table \<^verbatim>\<open>media_records\<close>. Every column but the primary key can hold
  NULL (\<^const>\<open>None\<close>): the schema upgrade adds columns to the rows of an older table without
  a value, and \<^verbatim>\<open>GetMediaRecords\<close> reads them through pointers for that reason.
\<close>

record media_row =
  c_id :: int
  c_file_name :: "string option"
  c_title :: "string option"
  c_original_title :: "string option"
  c_year :: "string option"
  c_country :: "string option"
  c_genres :: "string option"
  c_actors :: "string option"
  c_category :: "string option"
  c_source_path :: "string option"
  c_target_path :: "string option"
  c_processed_at :: "time option"
  c_updated_at :: "time option"
  c_runtime :: "string option"
  c_plot :: "string option"
  c_imdb_id :: "string option"
  c_tmdb_id :: "string option"
  c_season :: "string option"
  c_episode :: "string option"
  c_director :: "string option"
  c_writer :: "string option"
  c_rating :: "string option"
  c_resolution :: "string option"
  c_version :: "int option"
  c_is_complete :: "bool option"

text \<open>
  The store: the three tables in row order, each with the counter that AUTOINCREMENT keeps
  (the largest row id ever handed out). The tables of missing items were created with all
  their columns and are only written by the two insert functions, so their rows are the Go
  structs themselves. Statements are taken to execute; the errors of the model are the ones
  the statements' results produce.
\<close>

record database =
  media_records :: "media_row list"
  media_records_seq :: int
  missing_seasons :: "MissingSeason list"
  missing_seasons_seq :: int
  missing_episodes :: "MissingEpisode list"
  missing_episodes_seq :: int

definition emptyDatabase :: database where
  "emptyDatabase =
     \<lparr> media_records = [], media_records_seq = 0,
       missing_seasons = [], missing_seasons_seq = 0,
       missing_episodes = [], missing_episodes_seq = 0 \<rparr>"

text \<open>The row id of an insert: one more than the largest id in the table or handed out before.\<close>

definition nextRowId :: "int \<Rightarrow> int list \<Rightarrow> int" where
  "nextRowId seq ids = fold max ids seq + 1"

subsection \<open>The LIKE operator of SQLite\<close>

text \<open>
  \<^verbatim>\<open>%\<close> stands for any run of characters, \<^verbatim>\<open>_\<close> for one character (one UTF-8 sequence), and
  any other character for itself, ASCII letters without regard to case. A NULL operand makes
  the comparison NULL, so the row is not selected, under \<^verbatim>\<open>LIKE\<close> and \<^verbatim>\<open>NOT LIKE\<close> alike.
\<close>

fun skipContinuation :: "string \<Rightarrow> string" where
  "skipContinuation [] = []"
| "skipContinuation (c # cs) =
     (if 128 \<le> (of_char c :: nat) \<and> (of_char c :: nat) < 192 then skipContinuation cs else c # cs)"

lemma length_skipContinuation: "length (skipContinuation s) < Suc (length s)"
  by (induction s) auto

function sqlLike :: "string \<Rightarrow> string \<Rightarrow> bool" where
  "sqlLike [] s = (s = [])"
| "sqlLike (p # ps) [] = (p = CHR ''%'' \<and> sqlLike ps [])"
| "sqlLike (p # ps) (c # cs) =
     (if p = CHR ''%'' then sqlLike ps (c # cs) \<or> sqlLike (p # ps) (skipContinuation cs)
      else if p = CHR ''_'' then sqlLike ps (skipContinuation cs)
      else lowerByte p = lowerByte c \<and> sqlLike ps cs)"
  by pat_completeness auto
termination
  by (relation "measure (\<lambda>(p, s). length p + length s)")
     (auto intro: less_SucI length_skipContinuation)

definition columnLike :: "string \<Rightarrow> string option \<Rightarrow> bool" where
  "columnLike pattern column = (case column of None \<Rightarrow> False | Some v \<Rightarrow> sqlLike pattern v)"

definition columnNotLike :: "string \<Rightarrow> string option \<Rightarrow> bool" where
  "columnNotLike pattern column = (case column of None \<Rightarrow> False | Some v \<Rightarrow> \<not> sqlLike pattern v)"

subsection \<open>InsertOrUpdateMediaRecord\<close>

text \<open>
  The WHERE clause of the lookup. A record with an empty \<open>Season\<close> takes the movie query
  (title, year, category not ending in Show), any other the series query (title, year,
  season, category ending in Show).
\<close>

definition existingRecordQuery :: "MediaRecord \<Rightarrow> media_row \<Rightarrow> bool" where
  "existingRecordQuery record row =
     (if Season record = []
      then c_title row = Some (Title record) \<and> c_year row = Some (Year record)
           \<and> columnNotLike ''%Show'' (c_category row)
      else c_title row = Some (Title record) \<and> c_year row = Some (Year record)
           \<and> c_season row = Some (Season record) \<and> columnLike ''%Show'' (c_category row))"

definition insertedRow :: "time \<Rightarrow> int \<Rightarrow> MediaRecord \<Rightarrow> media_row" where
  "insertedRow now newId record =
     \<lparr> c_id = newId,
       c_file_name = Some (FileName record),
       c_title = Some (Title record),
       c_original_title = Some (OriginalTitle record),
       c_year = Some (Year record),
       c_country = Some (Country record),
       c_genres = Some (Genres record),
       c_actors = Some (Actors record),
       c_category = Some (Category record),
       c_source_path = Some (SourcePath record),
       c_target_path = Some (TargetPath record),
       c_processed_at = Some now,
       c_updated_at = Some now,
       c_runtime = Some (Runtime record),
       c_plot = Some (Plot record),
       c_imdb_id = Some (IMDbID record),
       c_tmdb_id = Some (TMDbID record),
       c_season = Some (Season record),
       c_episode = Some (Episode record),
       c_director = Some (Director record),
       c_writer = Some (Writer record),
       c_rating = Some (Rating record),
       c_resolution = Some (Resolution record),
       c_version = Some (if Version record > 0 then Version record else 1),
       c_is_complete = Some (if IsComplete record then IsComplete record else False) \<rparr>"

definition updatedRow :: "time \<Rightarrow> int \<Rightarrow> MediaRecord \<Rightarrow> media_row \<Rightarrow> media_row" where
  "updatedRow now existingVersion record row =
     row \<lparr> c_file_name := Some (FileName record),
           c_original_title := Some (OriginalTitle record),
           c_country := Some (Country record),
           c_genres := Some (Genres record),
           c_actors := Some (Actors record),
           c_category := Some (Category record),
           c_source_path := Some (SourcePath record),
           c_target_path := Some (TargetPath record),
           c_updated_at := Some now,
           c_runtime := Some (Runtime record),
           c_plot := Some (Plot record),
           c_imdb_id := Some (IMDbID record),
           c_tmdb_id := Some (TMDbID record),
           c_episode := Some (Episode record),
           c_director := Some (Director record),
           c_writer := Some (Writer record),
           c_rating := Some (Rating record),
           c_resolution := Some (Resolution record),
           c_version := Some (existingVersion + 1),
           c_is_complete := Some (IsComplete record) \<rparr>"

text \<open>
  \<open>now\<close> is the reading of the clock the call takes. The lookup scans the first row the
  query selects; a NULL version cannot be scanned into the Go int and the call returns that
  error without writing. The result is the returned error (\<^const>\<open>None\<close> for nil) and the
  store after the call.
\<close>

definition InsertOrUpdateMediaRecord ::
    "time \<Rightarrow> MediaRecord \<Rightarrow> database \<Rightarrow> error option \<times> database" where
  "InsertOrUpdateMediaRecord now record db =
     (case find (existingRecordQuery record) (media_records db) of
        None \<Rightarrow>
          (let newId = nextRowId (media_records_seq db) (map c_id (media_records db))
           in (None, db \<lparr> media_records := media_records db @ [insertedRow now newId record],
                          media_records_seq := newId \<rparr>))
      | Some existing \<Rightarrow>
          (case c_version existing of
             None \<Rightarrow> (Some ErrScan, db)
           | Some existingVersion \<Rightarrow>
               (None, db \<lparr> media_records :=
                   map (\<lambda>row. if c_id row = c_id existing
                              then updatedRow now existingVersion record row else row)
                       (media_records db) \<rparr>)))"

subsection \<open>Missing seasons and episodes\<close>

definition missingSeasonQuery :: "MissingSeason \<Rightarrow> MissingSeason \<Rightarrow> bool" where
  "missingSeasonQuery record row =
     (ms_Title row = ms_Title record \<and> ms_TMDbID row = ms_TMDbID record
      \<and> ms_Season row = ms_Season record \<and> ms_Status row = ''missing'')"

text \<open>\<open>detected\<close> and \<open>updated\<close> are the two readings of the clock an insert takes.\<close>

definition InsertMissingSeason ::
    "time \<Rightarrow> time \<Rightarrow> MissingSeason \<Rightarrow> database \<Rightarrow> error option \<times> database" where
  "InsertMissingSeason detected updated record db =
     (case find (missingSeasonQuery record) (missing_seasons db) of
        None \<Rightarrow>
          (let newId = nextRowId (missing_seasons_seq db) (map ms_ID (missing_seasons db))
           in (None, db \<lparr> missing_seasons := missing_seasons db @
                            [\<lparr> ms_ID = newId,
                               ms_MediaID = ms_MediaID record,
                               ms_Title = ms_Title record,
                               ms_OriginalTitle = ms_OriginalTitle record,
                               ms_TMDbID = ms_TMDbID record,
                               ms_Season = ms_Season record,
                               ms_DetectedAt = detected,
                               ms_UpdatedAt = updated,
                               ms_Status = ''missing'' \<rparr>],
                          missing_seasons_seq := newId \<rparr>))
      | Some existing \<Rightarrow> (None, db))"

definition missingEpisodeQuery :: "MissingEpisode \<Rightarrow> MissingEpisode \<Rightarrow> bool" where
  "missingEpisodeQuery record row =
     (me_Title row = me_Title record \<and> me_TMDbID row = me_TMDbID record
      \<and> me_Season row = me_Season record \<and> me_Episode row = me_Episode record
      \<and> me_Status row = ''missing'')"

definition InsertMissingEpisode ::
    "time \<Rightarrow> time \<Rightarrow> MissingEpisode \<Rightarrow> database \<Rightarrow> error option \<times> database" where
  "InsertMissingEpisode detected updated record db =
     (case find (missingEpisodeQuery record) (missing_episodes db) of
        None \<Rightarrow>
          (let newId = nextRowId (missing_episodes_seq db) (map me_ID (missing_episodes db))
           in (None, db \<lparr> missing_episodes := missing_episodes db @
                            [\<lparr> me_ID = newId,
                               me_MediaID = me_MediaID record,
                               me_Title = me_Title record,
                               me_OriginalTitle = me_OriginalTitle record,
                               me_TMDbID = me_TMDbID record,
                               me_Season = me_Season record,
                               me_Episode = me_Episode record,
                               me_DetectedAt = detected,
                               me_UpdatedAt = updated,
                               me_Status = ''missing'' \<rparr>],
                          missing_episodes_seq := newId \<rparr>))
      | Some existing \<Rightarrow> (None, db))"

subsection \<open>GetMediaRecords\<close>

text \<open>The filter map of the source, by its three keys; a key that is absent or holds a value
  of another type is \<^const>\<open>None\<close>.\<close>

record filter =
  f_title :: "string option"
  f_is_complete :: "bool option"
  f_category :: "string option"

definition noFilter :: filter where
  "noFilter = \<lparr> f_title = None, f_is_complete = None, f_category = None \<rparr>"

definition filterSelects :: "filter \<Rightarrow> media_row \<Rightarrow> bool" where
  "filterSelects f row =
     ((case f_title f of
         None \<Rightarrow> True
       | Some title \<Rightarrow> if title \<noteq> [] then columnLike (''%'' @ title @ ''%'') (c_title row) else True)
      \<and> (case f_is_complete f of
            None \<Rightarrow> True
          | Some isComplete \<Rightarrow> c_is_complete row = Some isComplete)
      \<and> (case f_category f of
            None \<Rightarrow> True
          | Some category \<Rightarrow>
              if category \<noteq> [] then columnLike (''%'' @ category @ ''%'') (c_category row) else True))"

definition orEmpty :: "string option \<Rightarrow> string" where
  "orEmpty column = (case column of None \<Rightarrow> [] | Some v \<Rightarrow> v)"

text \<open>
  The scan of one row: \<open>processed_at\<close> is scanned into a plain \<^verbatim>\<open>time.Time\<close>, so a NULL
  there is an error; the other columns go through pointers and take the defaults of the
  source. \<open>now\<close> is the clock read for a NULL \<open>updated_at\<close>.
\<close>

definition scanMediaRow :: "time \<Rightarrow> media_row \<Rightarrow> error + MediaRecord" where
  "scanMediaRow now row =
     (case c_processed_at row of
        None \<Rightarrow> Inl ErrScan
      | Some processedAt \<Rightarrow>
          Inr \<lparr> ID = c_id row,
                FileName = orEmpty (c_file_name row),
                Title = orEmpty (c_title row),
                OriginalTitle = orEmpty (c_original_title row),
                Year = orEmpty (c_year row),
                Country = orEmpty (c_country row),
                Genres = orEmpty (c_genres row),
                Actors = orEmpty (c_actors row),
                Category = orEmpty (c_category row),
                SourcePath = orEmpty (c_source_path row),
                TargetPath = orEmpty (c_target_path row),
                ProcessedAt = processedAt,
                UpdatedAt = (case c_updated_at row of Some updatedAt \<Rightarrow> updatedAt | None \<Rightarrow> now),
                Runtime = orEmpty (c_runtime row),
                Plot = orEmpty (c_plot row),
                IMDbID = orEmpty (c_imdb_id row),
                TMDbID = orEmpty (c_tmdb_id row),
                Season = orEmpty (c_season row),
                Episode = orEmpty (c_episode row),
                Director = orEmpty (c_director row),
                Writer = orEmpty (c_writer row),
                Rating = orEmpty (c_rating row),
                Resolution = orEmpty (c_resolution row),
                Version = (case c_version row of Some version \<Rightarrow> version | None \<Rightarrow> 1),
                IsComplete = (case c_is_complete row of Some isComplete \<Rightarrow> isComplete | None \<Rightarrow> False) \<rparr>)"

fun scanMediaRows :: "time \<Rightarrow> media_row list \<Rightarrow> error + MediaRecord list" where
  "scanMediaRows now [] = Inr []"
| "scanMediaRows now (row # rows) =
     (case scanMediaRow now row of
        Inl err \<Rightarrow> Inl err
      | Inr record \<Rightarrow>
          (case scanMediaRows now rows of
             Inl err \<Rightarrow> Inl err
           | Inr mediaRecords \<Rightarrow> Inr (record # mediaRecords)))"

definition GetMediaRecords :: "time \<Rightarrow> filter \<Rightarrow> database \<Rightarrow> error + MediaRecord list" where
  "GetMediaRecords now f db = scanMediaRows now (filter (filterSelects f) (media_records db))"


section \<open>Media directories\<close>

subsection \<open>Directory trees\<close>

text \<open>
  A file with its content, or a directory with its entries. A directory is kept as its
  listing, the entries in byte order of their names, which is what \<^verbatim>\<open>os.ReadDir\<close> returns.
\<close>

datatype node = File string | Dir "(string \<times> node) list"

fun IsDir :: "node \<Rightarrow> bool" where
  "IsDir (Dir entries) = True"
| "IsDir (File content) = False"

fun strLess :: "string \<Rightarrow> string \<Rightarrow> bool" where
  "strLess [] [] = False"
| "strLess [] (y # ys) = True"
| "strLess (x # xs) [] = False"
| "strLess (x # xs) (y # ys) =
     ((of_char x :: nat) < of_char y \<or> (x = y \<and> strLess xs ys))"

fun putEntry :: "string \<Rightarrow> node \<Rightarrow> (string \<times> node) list \<Rightarrow> (string \<times> node) list" where
  "putEntry name n [] = [(name, n)]"
| "putEntry name n ((name', n') # entries) =
     (if name = name' then (name, n) # entries
      else if strLess name name' then (name, n) # (name', n') # entries
      else (name', n') # putEntry name n entries)"

definition removeEntry :: "string \<Rightarrow> (string \<times> node) list \<Rightarrow> (string \<times> node) list" where
  "removeEntry name entries = filter (\<lambda>entry. fst entry \<noteq> name) entries"

text \<open>The entry of a name after an operation: gone (\<^const>\<open>None\<close>) or holding a node.\<close>

definition setEntry :: "string \<Rightarrow> node option \<Rightarrow> (string \<times> node) list \<Rightarrow> (string \<times> node) list" where
  "setEntry name n entries =
     (case n of None \<Rightarrow> removeEntry name entries | Some n' \<Rightarrow> putEntry name n' entries)"

subsection \<open>os.Rename and MoveDirectory\<close>

text \<open>
  The outcome of \<^verbatim>\<open>os.Rename(src, dst)\<close>, given what lies at the two paths: across devices
  it fails; on one device it moves the source to a free name and replaces a file by a file,
  and fails on every other pair: Go refuses a new name that is a directory, also an empty
  one. A failure for a missing source is told apart (\<^verbatim>\<open>os.IsNotExist\<close>). Failures for want
  of permission or space are outside the model.
\<close>

datatype rename_result = Renamed node | RenameNotExist | RenameFailed

definition Rename :: "bool \<Rightarrow> node option \<Rightarrow> node option \<Rightarrow> rename_result" where
  "Rename sameDevice src dst =
     (case src of
        None \<Rightarrow> RenameNotExist
      | Some s \<Rightarrow>
          if \<not> sameDevice then RenameFailed
          else (case dst of
                  None \<Rightarrow> Renamed s
                | Some (File content) \<Rightarrow> (if IsDir s then RenameFailed else Renamed s)
                | Some (Dir entries) \<Rightarrow> RenameFailed))"

text \<open>
  \<open>moveExisting\<close> is \<^verbatim>\<open>MoveDirectory\<close> on a source that exists; it returns the error, what
  is left at the source and what lies at the destination. When the rename fails it makes
  the destination directory, copies the entries of the source into it (\<open>copyEntries\<close>, the
  loop: a directory by a recursive call, a file by \<^verbatim>\<open>copyFile\<close>) and removes the source. An
  error leaves the partial result in place.
\<close>

fun moveExisting :: "bool \<Rightarrow> node \<Rightarrow> node option \<Rightarrow> error option \<times> node option \<times> node option"
and copyEntries :: "bool \<Rightarrow> (string \<times> node) list \<Rightarrow> (string \<times> node) list \<Rightarrow> (string \<times> node) list
                    \<Rightarrow> error option \<times> (string \<times> node) list \<times> (string \<times> node) list" where
  "moveExisting sameDevice (File content) dst =
     (case Rename sameDevice (Some (File content)) dst of
        Renamed d \<Rightarrow> (None, None, Some d)
      | RenameNotExist \<Rightarrow> (Some ErrSourceMissing, Some (File content), dst)
      | RenameFailed \<Rightarrow>
          (case dst of
             Some (File content') \<Rightarrow> (Some ErrMkdir, Some (File content), dst)
           | Some (Dir dstEntries) \<Rightarrow> (Some ErrReadDir, Some (File content), dst)
           | None \<Rightarrow> (Some ErrReadDir, Some (File content), Some (Dir []))))"
| "moveExisting sameDevice (Dir srcEntries) dst =
     (case Rename sameDevice (Some (Dir srcEntries)) dst of
        Renamed d \<Rightarrow> (None, None, Some d)
      | RenameNotExist \<Rightarrow> (Some ErrSourceMissing, Some (Dir srcEntries), dst)
      | RenameFailed \<Rightarrow>
          (case dst of
             Some (File content') \<Rightarrow> (Some ErrMkdir, Some (Dir srcEntries), dst)
           | _ \<Rightarrow>
              (case copyEntries sameDevice srcEntries srcEntries
                      (case dst of Some (Dir dstEntries) \<Rightarrow> dstEntries | _ \<Rightarrow> []) of
                 (Some err, src', dst') \<Rightarrow> (Some err, Some (Dir src'), Some (Dir dst'))
               | (None, src', dst') \<Rightarrow> (None, None, Some (Dir dst')))))"
| "copyEntries sameDevice [] src dst = (None, src, dst)"
| "copyEntries sameDevice ((name, File content) # rest) src dst =
     (case map_of dst name of
        Some (Dir entries) \<Rightarrow> (Some ErrCreate, src, dst)
      | _ \<Rightarrow> copyEntries sameDevice rest src (putEntry name (File content) dst))"
| "copyEntries sameDevice ((name, Dir entries) # rest) src dst =
     (case moveExisting sameDevice (Dir entries) (map_of dst name) of
        (Some err, child, dstChild) \<Rightarrow> (Some err, setEntry name child src, setEntry name dstChild dst)
      | (None, child, dstChild) \<Rightarrow>
          copyEntries sameDevice rest (setEntry name child src) (setEntry name dstChild dst))"

definition MoveDirectory :: "bool \<Rightarrow> node option \<Rightarrow> node option \<Rightarrow> error option \<times> node option \<times> node option" where
  "MoveDirectory sameDevice src dst =
     (case src of
        None \<Rightarrow> (Some ErrSourceMissing, src, dst)
      | Some s \<Rightarrow> moveExisting sameDevice s dst)"

subsection \<open>Season markers\<close>

definition isDigit :: "char \<Rightarrow> bool" where
  "isDigit c = (48 \<le> (of_char c :: nat) \<and> (of_char c :: nat) \<le> 57)"

text \<open>The class \<^verbatim>\<open>\s\<close>: tab, line feed, form feed, carriage return, space.\<close>

definition isSpace :: "char \<Rightarrow> bool" where
  "isSpace c = ((of_char c :: nat) \<in> {9, 10, 12, 13, 32})"

definition longS :: string where \<comment> \<open>U+017F, the letter the flag (?i) folds with s\<close>
  "longS = [CHR 0xC5, CHR 0xBF]"

definition zhOrdinal :: string where \<comment> \<open>U+7B2C, the ordinal prefix\<close>
  "zhOrdinal = [CHR 0xE7, CHR 0xAC, CHR 0xAC]"

definition zhSeason :: string where \<comment> \<open>U+5B63, season\<close>
  "zhSeason = [CHR 0xE5, CHR 0xAD, CHR 0xA3]"

text \<open>A literal of lower-case ASCII letters matched without regard to case at the start of a
  string; the result is what follows the match.\<close>

fun foldMatch :: "string \<Rightarrow> string \<Rightarrow> string option" where
  "foldMatch [] s = Some s"
| "foldMatch (p # ps) [] = None"
| "foldMatch (p # ps) (c # cs) =
     (if lowerByte c = p then foldMatch ps cs
      else if p = CHR ''s'' \<and> HasPrefix (c # cs) longS then foldMatch ps (drop 2 (c # cs))
      else None)"

text \<open>The leftmost position at which a pattern matches.\<close>

fun findFirst :: "(string \<Rightarrow> 'a option) \<Rightarrow> string \<Rightarrow> 'a option" where
  "findFirst matchAt [] = matchAt []"
| "findFirst matchAt (c # cs) =
     (case matchAt (c # cs) of Some m \<Rightarrow> Some m | None \<Rightarrow> findFirst matchAt cs)"

text \<open>The three patterns of \<^verbatim>\<open>GetSeasonNumberFromDirName\<close>, each giving its group of digits:
  \<^verbatim>\<open>(?i)season\s*(\d+)\<close>, \<^verbatim>\<open>(?i)\<close> U+7B2C \<^verbatim>\<open>(\d+)\<close> U+5B63, and \<^verbatim>\<open>(?i)S(\d+)\<close>.\<close>

definition matchSeasonWord :: "string \<Rightarrow> string option" where
  "matchSeasonWord s =
     (case foldMatch ''season'' s of
        None \<Rightarrow> None
      | Some rest \<Rightarrow>
          (let digits = takeWhile isDigit (dropWhile isSpace rest)
           in if digits = [] then None else Some digits))"

definition matchOrdinalSeason :: "string \<Rightarrow> string option" where
  "matchOrdinalSeason s =
     (if HasPrefix s zhOrdinal
      then (let rest = drop (length zhOrdinal) s; digits = takeWhile isDigit rest
            in if digits \<noteq> [] \<and> HasPrefix (dropWhile isDigit rest) zhSeason
               then Some digits else None)
      else None)"

definition matchLetterS :: "string \<Rightarrow> string option" where
  "matchLetterS s =
     (case foldMatch ''s'' s of
        None \<Rightarrow> None
      | Some rest \<Rightarrow>
          (let digits = takeWhile isDigit rest
           in if digits = [] then None else Some digits))"

text \<open>\<^verbatim>\<open>strconv.Atoi\<close> on a run of digits: its value, or an error beyond the 64-bit int.\<close>

definition digitsValue :: "string \<Rightarrow> int" where
  "digitsValue digits = foldl (\<lambda>n c. 10 * n + (int (of_char c) - 48)) 0 digits"

definition Atoi :: "string \<Rightarrow> int option" where
  "Atoi digits =
     (if digitsValue digits \<le> 9223372036854775807 then Some (digitsValue digits) else None)"

definition seasonByPattern :: "(string \<Rightarrow> string option) \<Rightarrow> string \<Rightarrow> int option" where
  "seasonByPattern matchAt dirName =
     (case findFirst matchAt dirName of None \<Rightarrow> None | Some digits \<Rightarrow> Atoi digits)"

definition GetSeasonNumberFromDirName :: "string \<Rightarrow> int" where
  "GetSeasonNumberFromDirName dirName =
     (case seasonByPattern matchSeasonWord dirName of
        Some n \<Rightarrow> n
      | None \<Rightarrow>
          (case seasonByPattern matchOrdinalSeason dirName of
             Some n \<Rightarrow> n
           | None \<Rightarrow>
               (case seasonByPattern matchLetterS dirName of
                  Some n \<Rightarrow> n
                | None \<Rightarrow> 0)))"

text \<open>The season numbers of the subdirectories of a listing, in listing order.\<close>

definition seasonDirs :: "(string \<times> node) list \<Rightarrow> int list" where
  "seasonDirs entries =
     filter (\<lambda>seasonNumber. seasonNumber > 0)
       (map (\<lambda>entry. GetSeasonNumberFromDirName (fst entry)) (filter (\<lambda>entry. IsDir (snd entry)) entries))"

text \<open>\<open>target\<close> is what lies at the path: nothing, a file (the listing fails) or a directory.\<close>

definition GetExistingSeasons :: "node option \<Rightarrow> error + int list" where
  "GetExistingSeasons target =
     (case target of
        None \<Rightarrow> Inr []
      | Some (File content) \<Rightarrow> Inl (ErrWrapped ''read target directory'' ErrReadDir)
      | Some (Dir entries) \<Rightarrow> Inr (seasonDirs entries))"

text \<open>\<open>listing\<close> is the result of \<^verbatim>\<open>os.ReadDir(mediaDir)\<close>, \<open>mediaName\<close> the base name of the
  directory.\<close>

definition GetNewSeasons :: "string \<Rightarrow> error + (string \<times> node) list \<Rightarrow> error + int list" where
  "GetNewSeasons mediaName listing =
     (case listing of
        Inl err \<Rightarrow> Inl (ErrWrapped ''read source directory'' err)
      | Inr entries \<Rightarrow>
          (let newSeasons = seasonDirs entries
           in if newSeasons = [] \<and> GetSeasonNumberFromDirName mediaName > 0
              then Inr [GetSeasonNumberFromDirName mediaName]
              else Inr newSeasons))"

definition HasNewSeasons ::
    "string \<Rightarrow> error + (string \<times> node) list \<Rightarrow> node option \<Rightarrow> error + bool \<times> int list" where
  "HasNewSeasons mediaName listing target =
     (case GetExistingSeasons target of
        Inl err \<Rightarrow> Inl err
      | Inr existingSeasons \<Rightarrow>
          (case GetNewSeasons mediaName listing of
             Inl err \<Rightarrow> Inl err
           | Inr newSeasons \<Rightarrow>
               (let seasonsToAdd = filter (\<lambda>newSeason. newSeason \<notin> set existingSeasons) newSeasons
                in Inr (seasonsToAdd \<noteq> [], seasonsToAdd))))"


section \<open>Classification and placement of one title\<close>

subsection \<open>The parsed metadata file\<close>

record Actor =
  actor_Name :: string
  actor_Role :: string

text \<open>The struct \<^verbatim>\<open>parser.NFO\<close>; \<open>XMLName\<close> is the local name of the root tag.\<close>

record NFO =
  XMLName :: string
  nfo_Title :: string
  nfo_OriginalTitle :: string
  nfo_Year :: string
  nfo_Country :: "string list"
  nfo_Genres :: "string list"
  nfo_Actors :: "Actor list"
  nfo_Runtime :: string
  nfo_Plot :: string
  nfo_IMDbID :: string
  nfo_TMDbID :: string
  nfo_Season :: string
  nfo_Episode :: string
  nfo_Director :: string
  nfo_Writer :: string
  nfo_Rating :: string

definition IsTVShow :: "NFO \<Rightarrow> bool" where
  "IsTVShow n = (XMLName n = ''tvshow'')"

definition IsSimplifiedChinese :: "unicode \<Rightarrow> string \<Rightarrow> bool" where
  "IsSimplifiedChinese U s = matchHan U s"

definition isNFOResolved :: "unicode \<Rightarrow> NFO \<Rightarrow> bool" where
  "isNFOResolved U nfo =
     (if nfo_Title nfo = [] then False
      else if nfo_Genres nfo \<noteq> [] \<or> nfo_Country nfo \<noteq> [] \<or> nfo_IMDbID nfo \<noteq> []
              \<or> nfo_TMDbID nfo \<noteq> [] \<or> nfo_Plot nfo \<noteq> [] \<or> nfo_Actors nfo \<noteq> []
      then True
      else if IsSimplifiedChinese U (nfo_Title nfo) \<and> nfo_Year nfo \<noteq> [] then True
      else False)"

subsection \<open>Paths and names\<close>

text \<open>The functions of \<^verbatim>\<open>path/filepath\<close> and \<^verbatim>\<open>strings\<close> the classifier uses, with the
  separator \<^verbatim>\<open>/\<close> and no volume name.\<close>

definition isSlash :: "char \<Rightarrow> bool" where
  "isSlash c = (c = CHR ''/'')"

fun Join :: "string list \<Rightarrow> string \<Rightarrow> string" where
  "Join [] sep = []"
| "Join [x] sep = x"
| "Join (x # y # zs) sep = x @ sep @ Join (y # zs) sep"

text \<open>The elements of a path, the pieces between its separators.\<close>

fun splitSlash :: "string \<Rightarrow> string list" where
  "splitSlash [] = [[]]"
| "splitSlash (c # cs) =
     (if isSlash c then [] # splitSlash cs
      else (case splitSlash cs of
              [] \<Rightarrow> [[c]]
            | e # es \<Rightarrow> (c # e) # es))"

text \<open>
  The loop of \<^verbatim>\<open>filepath.Clean\<close> over the elements, \<open>out\<close> holding the elements kept so far,
  the last one first: an empty element and \<^verbatim>\<open>.\<close> are dropped; \<^verbatim>\<open>..\<close> takes back the last
  element kept unless there is none to take back, where it is dropped on a rooted path and
  kept on a relative one.
\<close>

fun cleanElems :: "bool \<Rightarrow> string list \<Rightarrow> string list \<Rightarrow> string list" where
  "cleanElems rooted out [] = rev out"
| "cleanElems rooted out (e # es) =
     (if e = [] \<or> e = ''.'' then cleanElems rooted out es
      else if e = ''..'' then
        (case out of
           [] \<Rightarrow> if rooted then cleanElems rooted out es else cleanElems rooted (e # out) es
         | kept # below \<Rightarrow>
             if kept = ''..'' then cleanElems rooted (e # out) es
             else cleanElems rooted below es)
      else cleanElems rooted (e # out) es)"

definition Clean :: "string \<Rightarrow> string" where
  "Clean path =
     (case path of
        [] \<Rightarrow> ''.''
      | c # cs \<Rightarrow>
          (let cleaned = Join (cleanElems (isSlash c) [] (splitSlash path)) ''/''
           in if isSlash c then ''/'' @ cleaned
              else if cleaned = [] then ''.'' else cleaned))"

text \<open>\<^verbatim>\<open>filepath.Dir\<close>: the path up to its last separator, cleaned.\<close>

definition filepath_Dir :: "string \<Rightarrow> string" where
  "filepath_Dir path = Clean (rev (dropWhile (\<lambda>c. \<not> isSlash c) (rev path)))"

definition filepath_Base :: "string \<Rightarrow> string" where
  "filepath_Base path =
     (let trimmed = dropWhile isSlash (rev path)
      in if path = [] then ''.'' else if trimmed = [] then ''/''
         else rev (takeWhile (\<lambda>c. \<not> isSlash c) trimmed))"

definition filepath_Ext :: "string \<Rightarrow> string" where
  "filepath_Ext path =
     (let tail = takeWhile (\<lambda>c. c \<noteq> CHR ''.'' \<and> \<not> isSlash c) (rev path)
      in case drop (length tail) (rev path) of
           [] \<Rightarrow> []
         | c # cs \<Rightarrow> if c = CHR ''.'' then rev (tail @ [c]) else [])"

text \<open>\<^verbatim>\<open>filepath.Join\<close>: the elements from the first one that is not empty, joined and cleaned.\<close>

definition filepath_Join :: "string list \<Rightarrow> string" where
  "filepath_Join elems =
     (case dropWhile (\<lambda>e. e = []) elems of
        [] \<Rightarrow> []
      | e # es \<Rightarrow> Clean (Join (e # es) ''/''))"

definition formatActors :: "Actor list \<Rightarrow> string" where
  "formatActors actors = Join (map actor_Name actors) '', ''"

subsection \<open>Resolution tag of a file name\<close>

definition upperByte :: "char \<Rightarrow> char" where
  "upperByte c =
     (if 97 \<le> (of_char c :: nat) \<and> (of_char c :: nat) \<le> 122
      then char_of (of_char c - (32 :: nat)) else c)"

definition kelvinSign :: string where \<comment> \<open>U+212A, the letter the flag (?i) folds with k\<close>
  "kelvinSign = [CHR 0xE2, CHR 0x84, CHR 0xAA]"

text \<open>\<^verbatim>\<open>(?i)(\d{3,4}p)\<close> and \<^verbatim>\<open>(?i)(\d{3,4}i)\<close> at the start of a string: four digits and the
  letter, else three digits and the letter.\<close>

definition matchDigitsLetter :: "char \<Rightarrow> string \<Rightarrow> string option" where
  "matchDigitsLetter letter s =
     (if length (takeWhile isDigit (take 4 s)) = 4 \<and> map lowerByte (take 1 (drop 4 s)) = [letter]
      then Some (take 5 s)
      else if 3 \<le> length (takeWhile isDigit (take 3 s)) \<and> map lowerByte (take 1 (drop 3 s)) = [letter]
      then Some (take 4 s)
      else None)"

text \<open>\<^verbatim>\<open>(?i)(4k|8k)\<close> at the start of a string.\<close>

definition matchK :: "string \<Rightarrow> string option" where
  "matchK s =
     (if take 1 s = ''4'' \<or> take 1 s = ''8''
      then (if map lowerByte (take 1 (drop 1 s)) = ''k'' then Some (take 2 s)
            else if HasPrefix (drop 1 s) kelvinSign then Some (take 4 s)
            else None)
      else None)"

text \<open>The match is upper-cased; the one match outside ASCII ends in the Kelvin sign, which
  upper-casing leaves as it is.\<close>

definition extractResolutionFromFileName :: "string \<Rightarrow> string" where
  "extractResolutionFromFileName fileName =
     (case findFirst (matchDigitsLetter (CHR ''p'')) fileName of
        Some m \<Rightarrow> map upperByte m
      | None \<Rightarrow>
          (case findFirst (matchDigitsLetter (CHR ''i'')) fileName of
             Some m \<Rightarrow> map upperByte m
           | None \<Rightarrow>
               (case findFirst matchK fileName of
                  Some m \<Rightarrow> (if isASCII m then map upperByte m else m)
                | None \<Rightarrow> [])))"

subsection \<open>The collaborators and the state\<close>

text \<open>
  What one call of \<^verbatim>\<open>ClassifyAndMove\<close> consults without changing it: the Unicode tables,
  the metadata reader, the two configuration values, the metadata service (its answer to a
  request, the same throughout the call), the clock (\<open>clock env k\<close> is reading number \<open>k\<close>),
  whether the media directory and the library are on one device, and whether the media
  directory can be listed.
\<close>

record env =
  tables :: unicode
  ParseNFO :: "string \<Rightarrow> error + NFO"
  CloudDir :: string
  TMDBApiKey :: string
  GetProductionCountries :: "string \<Rightarrow> bool \<Rightarrow> error + string list"
  GetTVShowSeasons :: "string \<Rightarrow> error + int"
  clock :: "nat \<Rightarrow> time"
  sameDevice :: bool
  mediaDirReadable :: bool

datatype level = INFO | WARNING | ERROR

text \<open>A line of the log: its level and what it says, and for the lines that print season
  numbers those numbers.\<close>

datatype log_line = Line level string | SeasonsLine level string "int list"

text \<open>
  What the call changes: the media directory (\<open>source\<close>, what lies at the directory of the
  metadata file); the library (\<open>cloud\<close>, what lies at \<open>CloudDir\<close>/category for each category);
  the catalog store; the log; and the number of clock readings taken. The media directory
  is taken to lie outside the library.
\<close>

record world =
  source :: "node option"
  cloud :: "string \<Rightarrow> node option"
  store :: database
  journal :: "log_line list"
  tick :: nat

definition logf :: "log_line \<Rightarrow> world \<Rightarrow> world" where
  "logf line w = w \<lparr> journal := journal w @ [line] \<rparr>"

definition logError :: "string \<Rightarrow> error option \<Rightarrow> world \<Rightarrow> world" where
  "logError message err w = (case err of None \<Rightarrow> w | Some e \<Rightarrow> logf (Line ERROR message) w)"

definition ReadDir :: "env \<Rightarrow> world \<Rightarrow> error + (string \<times> node) list" where
  "ReadDir env w =
     (if mediaDirReadable env
      then (case source w of Some (Dir entries) \<Rightarrow> Inr entries | _ \<Rightarrow> Inl ErrReadDir)
      else Inl ErrReadDir)"

definition targetNode :: "string \<Rightarrow> string \<Rightarrow> world \<Rightarrow> node option" where
  "targetNode category mediaName w =
     (case cloud w category of Some (Dir entries) \<Rightarrow> map_of entries mediaName | _ \<Rightarrow> None)"

definition setTargetNode :: "string \<Rightarrow> string \<Rightarrow> node option \<Rightarrow> world \<Rightarrow> world" where
  "setTargetNode category mediaName n w =
     w \<lparr> cloud := (cloud w)
           (category := Some (Dir (setEntry mediaName n
              (case cloud w category of Some (Dir entries) \<Rightarrow> entries | _ \<Rightarrow> [])))) \<rparr>"


definition MkdirAll :: "string \<Rightarrow> world \<Rightarrow> error option \<times> world" where
  "MkdirAll category w =
     (case cloud w category of
        None \<Rightarrow> (None, w \<lparr> cloud := (cloud w)(category := Some (Dir [])) \<rparr>)
      | Some (Dir entries) \<Rightarrow> (None, w)
      | Some (File content) \<Rightarrow> (Some ErrMkdir, w))"

definition projectFiles :: "string list" where
  "projectFiles =
     [''go.mod'', ''main.go'', ''go.sum'',
      ''CMakeLists.txt'', ''Makefile'',
      ''package.json'',
      ''requirements.txt'',
      ''README.md'', ''README.txt'',
      ''.git'']"

definition isProjectDirectory :: "node option \<Rightarrow> bool" where
  "isProjectDirectory dir =
     (case dir of
        Some (Dir entries) \<Rightarrow> list_ex (\<lambda>file. map_of entries file \<noteq> None) projectFiles
      | _ \<Rightarrow> False)"

definition countNFO :: "unicode \<Rightarrow> (string \<times> node) list \<Rightarrow> nat" where
  "countNFO U entries =
     length (filter (\<lambda>entry. \<not> IsDir (snd entry) \<and> ToLower U (filepath_Ext (fst entry)) = ''.nfo'') entries)"


subsection \<open>Completeness tracker\<close>

definition checkSeasonCompleteness :: "env \<Rightarrow> string \<Rightarrow> int list \<Rightarrow> error + bool \<times> int list \<times> int" where
  "checkSeasonCompleteness env tmdbID existingSeasons =
     (case GetTVShowSeasons env tmdbID of
        Inl err \<Rightarrow> Inl err
      | Inr totalSeasons \<Rightarrow>
          (let missingSeasons = filter (\<lambda>i. i \<notin> set existingSeasons) [1..totalSeasons]
           in Inr (missingSeasons = [], missingSeasons, totalSeasons)))"

text \<open>
  The loop of \<^verbatim>\<open>DetectMissingSeasonsAndEpisodes\<close> over the season numbers still to visit:
  a season that is not on disk is handed to \<^const>\<open>InsertMissingSeason\<close>, which gets the next
  two readings of the clock; its error is logged and the loop goes on.
\<close>

fun recordMissingSeasons :: "env \<Rightarrow> MediaRecord \<Rightarrow> int list \<Rightarrow> int list \<Rightarrow> world \<Rightarrow> world" where
  "recordMissingSeasons env mediaRecord existingSeasons [] w = w"
| "recordMissingSeasons env mediaRecord existingSeasons (i # rest) w =
     (if i \<in> set existingSeasons
      then recordMissingSeasons env mediaRecord existingSeasons rest w
      else (let missingSeason =
                  \<lparr> ms_ID = 0,
                    ms_MediaID = ID mediaRecord,
                    ms_Title = Title mediaRecord,
                    ms_OriginalTitle = OriginalTitle mediaRecord,
                    ms_TMDbID = TMDbID mediaRecord,
                    ms_Season = i,
                    ms_DetectedAt = 0,
                    ms_UpdatedAt = 0,
                    ms_Status = [] \<rparr>;
                result = InsertMissingSeason (clock env (tick w)) (clock env (Suc (tick w)))
                           missingSeason (store w)
            in recordMissingSeasons env mediaRecord existingSeasons rest
                 (logError ''recording the missing season failed'' (fst result)
                    (w \<lparr> store := snd result, tick := tick w + 2 \<rparr>))))"

text \<open>
  \<open>target\<close> is what lies at \<open>TargetPath\<close> of the record. The result is the returned error,
  the record (the call sets its \<open>IsComplete\<close> through the pointer) and the state.
\<close>

definition DetectMissingSeasonsAndEpisodes ::
    "env \<Rightarrow> node option \<Rightarrow> MediaRecord \<Rightarrow> world \<Rightarrow> error option \<times> MediaRecord \<times> world" where
  "DetectMissingSeasonsAndEpisodes env target mediaRecord w =
     (if TMDbID mediaRecord = [] then (None, mediaRecord, w)
      else
        (case GetTVShowSeasons env (TMDbID mediaRecord) of
           Inl err \<Rightarrow> (Some (ErrWrapped ''getting the season count failed'' err), mediaRecord, w)
         | Inr totalSeasons \<Rightarrow>
             (case GetExistingSeasons target of
                Inl err \<Rightarrow> (Some (ErrWrapped ''getting the seasons on disk failed'' err), mediaRecord, w)
              | Inr existingSeasons \<Rightarrow>
                  (let w1 = recordMissingSeasons env mediaRecord existingSeasons [1..totalSeasons] w;
                       isComplete = (int (length existingSeasons) = totalSeasons);
                       mediaRecord' = mediaRecord \<lparr> IsComplete := isComplete \<rparr>;
                       result = InsertOrUpdateMediaRecord (clock env (tick w1)) mediaRecord' (store w1)
                   in (None, mediaRecord',
                       logError ''updating the completeness flag failed'' (fst result)
                         (w1 \<lparr> store := snd result, tick := Suc (tick w1) \<rparr>))))))"

definition ReportSeasonStatus :: "env \<Rightarrow> string \<Rightarrow> string \<Rightarrow> node option \<Rightarrow> world \<Rightarrow> error option \<times> world" where
  "ReportSeasonStatus env title tmdbID target w =
     (case GetExistingSeasons target of
        Inl err \<Rightarrow> (Some err, w)
      | Inr existingSeasons \<Rightarrow>
          (case checkSeasonCompleteness env tmdbID existingSeasons of
             Inl err \<Rightarrow> (None, logf (Line WARNING ''cannot check the seasons of the series'') w)
           | Inr (isComplete, missingSeasons, totalSeasons) \<Rightarrow>
               (None,
                logf (if isComplete then Line INFO ''status: complete''
                      else SeasonsLine INFO ''status: missing seasons'' missingSeasons)
                  (logf (SeasonsLine INFO ''seasons collected'' existingSeasons)
                     (logf (SeasonsLine INFO ''total seasons'' [totalSeasons])
                        (logf (Line INFO ''season status report'') w))))))"

subsection \<open>ClassifyAndMove\<close>

text \<open>Lines 97 to 111: the countries of the metadata file, replaced by the answer of the
  metadata service when the title has an identifier, a key is configured and the service
  answers.\<close>

definition chooseCountries :: "env \<Rightarrow> NFO \<Rightarrow> bool \<Rightarrow> world \<Rightarrow> string list \<times> world" where
  "chooseCountries env nfo isTVShow w =
     (if nfo_TMDbID nfo \<noteq> [] \<and> TMDBApiKey env \<noteq> []
      then (case GetProductionCountries env (nfo_TMDbID nfo) isTVShow of
              Inl err \<Rightarrow>
                (nfo_Country nfo,
                 logf (Line WARNING ''production countries lookup failed, using the countries of the NFO'') w)
            | Inr tmdbCountries \<Rightarrow>
                (tmdbCountries, logf (Line INFO ''production countries from the service'') w))
      else (nfo_Country nfo, w))"

definition getExistingTVShowRecord ::
    "time \<Rightarrow> string \<Rightarrow> string \<Rightarrow> database \<Rightarrow> error + MediaRecord option" where
  "getExistingTVShowRecord now title year db =
     (case GetMediaRecords now noFilter db of
        Inl err \<Rightarrow> Inl err
      | Inr mediaRecords \<Rightarrow>
          Inr (find (\<lambda>record. Contains (Category record) ''Show'' \<and> Title record = title
                              \<and> Year record = year) mediaRecords))"

text \<open>Lines 158 to 214: the record to store, built before the move: the stored record of
  the series with its fields refreshed, or a new record.\<close>

definition prepareRecord ::
    "env \<Rightarrow> string \<Rightarrow> NFO \<Rightarrow> bool \<Rightarrow> string list \<Rightarrow> string \<Rightarrow> world \<Rightarrow> MediaRecord \<times> world" where
  "prepareRecord env nfoPath nfo isTVShow countries category w =
     (let mediaDir = filepath_Dir nfoPath;
          mediaName = filepath_Base mediaDir;
          targetMediaPath = filepath_Join [filepath_Join [CloudDir env, category], mediaName];
          resolution = extractResolutionFromFileName (filepath_Base nfoPath);
          lookup = (if isTVShow
                    then getExistingTVShowRecord (clock env (tick w)) (nfo_Title nfo) (nfo_Year nfo) (store w)
                    else Inr None);
          w1 = (if isTVShow then w \<lparr> tick := Suc (tick w) \<rparr> else w);
          w2 = (case lookup of
                  Inl err \<Rightarrow> logf (Line ERROR ''getting the stored series record failed'') w1
                | Inr found \<Rightarrow> w1)
      in case (case lookup of Inl err \<Rightarrow> None | Inr found \<Rightarrow> found) of
           None \<Rightarrow>
             (\<lparr> ID = 0,
                FileName = filepath_Base nfoPath,
                Title = nfo_Title nfo,
                OriginalTitle = nfo_OriginalTitle nfo,
                Year = nfo_Year nfo,
                Country = Join countries '', '',
                Genres = Join (nfo_Genres nfo) '', '',
                Actors = formatActors (nfo_Actors nfo),
                Category = category,
                SourcePath = mediaDir,
                TargetPath = targetMediaPath,
                ProcessedAt = clock env (tick w2),
                UpdatedAt = 0,
                Runtime = nfo_Runtime nfo,
                Plot = nfo_Plot nfo,
                IMDbID = nfo_IMDbID nfo,
                TMDbID = nfo_TMDbID nfo,
                Season = nfo_Season nfo,
                Episode = nfo_Episode nfo,
                Director = nfo_Director nfo,
                Writer = nfo_Writer nfo,
                Rating = nfo_Rating nfo,
                Resolution = resolution,
                Version = 0,
                IsComplete = False \<rparr>,
              w2 \<lparr> tick := Suc (tick w2) \<rparr>)
         | Some mediaRecord \<Rightarrow>
             (mediaRecord
                \<lparr> FileName := filepath_Base nfoPath,
                  OriginalTitle := nfo_OriginalTitle nfo,
                  Year := nfo_Year nfo,
                  Country := Join countries '', '',
                  Genres := Join (nfo_Genres nfo) '', '',
                  Actors := formatActors (nfo_Actors nfo),
                  Category := category,
                  TargetPath := targetMediaPath,
                  Runtime := nfo_Runtime nfo,
                  Plot := nfo_Plot nfo,
                  IMDbID := nfo_IMDbID nfo,
                  TMDbID := nfo_TMDbID nfo,
                  Director := nfo_Director nfo,
                  Writer := nfo_Writer nfo,
                  Rating := nfo_Rating nfo,
                  Resolution := resolution \<rparr>,
              w2))"

text \<open>
  Lines 237 to 283, the merge loop over the listing of the media directory. The state of
  the loop is the entries still in the media directory, the entries of the destination and
  the log. An entry whose name is free at the destination is moved. An entry whose name is
  taken is moved only when its name carries a season number that no subdirectory of the
  destination carries; otherwise it stays where it is.
\<close>

definition mergeEntry ::
    "bool \<Rightarrow> string \<times> node \<Rightarrow> (string \<times> node) list \<times> (string \<times> node) list \<times> log_line list
       \<Rightarrow> (string \<times> node) list \<times> (string \<times> node) list \<times> log_line list" where
  "mergeEntry sameDev entry state =
     (case state of (src, dst, lines) \<Rightarrow>
        (case map_of dst (fst entry) of
           None \<Rightarrow>
             (if IsDir (snd entry)
              then (case MoveDirectory sameDev (map_of src (fst entry)) None of
                      (Some err, s, d) \<Rightarrow>
                        (setEntry (fst entry) s src, setEntry (fst entry) d dst,
                         lines @ [Line ERROR ''moving the directory failed, skipped''])
                    | (None, s, d) \<Rightarrow>
                        (setEntry (fst entry) s src, setEntry (fst entry) d dst,
                         lines @ [Line INFO ''merged into the destination'']))
              else (case Rename sameDev (map_of src (fst entry)) None of
                      Renamed d \<Rightarrow>
                        (removeEntry (fst entry) src, putEntry (fst entry) d dst,
                         lines @ [Line INFO ''merged into the destination''])
                    | _ \<Rightarrow> (src, dst, lines @ [Line ERROR ''moving the file failed, skipped''])))
         | Some existing \<Rightarrow>
             (let seasonNum = GetSeasonNumberFromDirName (fst entry) in
              if seasonNum > 0
              then (let existingSeasons =
                          (case GetExistingSeasons (Some (Dir dst)) of Inl err \<Rightarrow> [] | Inr seasons \<Rightarrow> seasons)
                    in if seasonNum \<notin> set existingSeasons
                       then (case MoveDirectory sameDev (map_of src (fst entry)) (Some existing) of
                               (Some err, s, d) \<Rightarrow>
                                 (setEntry (fst entry) s src, setEntry (fst entry) d dst,
                                  lines @ [Line ERROR ''moving the season directory failed, skipped''])
                             | (None, s, d) \<Rightarrow>
                                 (setEntry (fst entry) s src, setEntry (fst entry) d dst,
                                  lines @ [SeasonsLine INFO ''merged the season'' [seasonNum]]))
                       else (src, dst,
                             lines @ [SeasonsLine WARNING ''the season exists at the destination, skipped''
                                        [seasonNum]]))
              else (src, dst, lines @ [Line WARNING ''exists at the destination, skipped'']))))"

fun mergeEntries ::
    "bool \<Rightarrow> (string \<times> node) list \<Rightarrow> (string \<times> node) list \<times> (string \<times> node) list \<times> log_line list
       \<Rightarrow> (string \<times> node) list \<times> (string \<times> node) list \<times> log_line list" where
  "mergeEntries sameDev [] state = state"
| "mergeEntries sameDev (entry # entries) state =
     mergeEntries sameDev entries (mergeEntry sameDev entry state)"

text \<open>Lines 312 to 331: the record is stored, and for a series with an identifier the
  missing seasons are detected and the season status is reported. Their errors are logged;
  the call returns nil.\<close>

definition persistAndDetect ::
    "env \<Rightarrow> NFO \<Rightarrow> bool \<Rightarrow> string \<Rightarrow> string \<Rightarrow> MediaRecord \<Rightarrow> world \<Rightarrow> error option \<times> world" where
  "persistAndDetect env nfo isTVShow category mediaName mediaRecord w =
     (let result = InsertOrUpdateMediaRecord (clock env (tick w)) mediaRecord (store w);
          w1 = logError ''recording the media information failed'' (fst result)
                 (w \<lparr> store := snd result, tick := Suc (tick w) \<rparr>);
          target = targetNode category mediaName w1
      in if isTVShow \<and> nfo_TMDbID nfo \<noteq> []
         then (case DetectMissingSeasonsAndEpisodes env target mediaRecord w1 of
                 (err, mediaRecord', w2) \<Rightarrow>
                   (case ReportSeasonStatus env (nfo_Title nfo) (nfo_TMDbID nfo) target
                           (logError ''detecting the missing seasons failed'' err w2) of
                      (err', w3) \<Rightarrow> (None, logError ''reporting the season status failed'' err' w3)))
         else (None, w1))"

text \<open>Lines 144 to 310: the destination directory of the category is made, the record is
  prepared, and the media directory is moved as a whole, merged into an existing
  destination of a series, or left alone.\<close>

definition placeAndRecord ::
    "env \<Rightarrow> string \<Rightarrow> NFO \<Rightarrow> bool \<Rightarrow> string list \<Rightarrow> string \<Rightarrow> world \<Rightarrow> error option \<times> world" where
  "placeAndRecord env nfoPath nfo isTVShow countries category w =
     (let mediaName = filepath_Base (filepath_Dir nfoPath) in
      case MkdirAll category w of
        (Some err, w') \<Rightarrow> (Some (ErrWrapped ''creating the target directory failed'' err), w')
      | (None, w1) \<Rightarrow>
          (case prepareRecord env nfoPath nfo isTVShow countries category w1 of
             (mediaRecord, w2) \<Rightarrow>
               (case targetNode category mediaName w2 of
                  Some existingTarget \<Rightarrow>
                    (if isTVShow
                     then (case HasNewSeasons mediaName (ReadDir env w2) (Some existingTarget) of
                             Inl err \<Rightarrow> (None, logf (Line ERROR ''checking for new seasons failed, skipped'') w2)
                           | Inr (hasNew, seasonsToAdd) \<Rightarrow>
                               (if hasNew
                                then (let w3 = logf (SeasonsLine INFO ''new seasons found, merging'' seasonsToAdd) w2 in
                                      case ReadDir env w3 of
                                        Inl err \<Rightarrow> (Some (ErrWrapped ''reading the source directory failed'' err), w3)
                                      | Inr entries \<Rightarrow>
                                          (case mergeEntries (sameDevice env) entries
                                                  (entries,
                                                   (case existingTarget of Dir dstEntries \<Rightarrow> dstEntries | File content \<Rightarrow> []),
                                                   journal w3) of
                                             (src', dst', lines) \<Rightarrow>
                                               persistAndDetect env nfo isTVShow category mediaName mediaRecord
                                                 (logf (Line INFO ''merged the new seasons into the destination'')
                                                    (logf (Line INFO ''removed the source directory'')
                                                       ((setTargetNode category mediaName (Some (Dir dst')) w3)
                                                          \<lparr> source := None, journal := lines \<rparr>)))))
                                else (None, logf (Line WARNING ''destination exists and no new seasons, skipped'') w2)))
                     else (None, logf (Line WARNING ''destination exists, skipped'') w2))
                | None \<Rightarrow>
                    (case MoveDirectory (sameDevice env) (source w2) None of
                       (Some err, s, d) \<Rightarrow>
                         (Some (ErrWrapped ''moving the media failed'' err),
                          (setTargetNode category mediaName d w2) \<lparr> source := s \<rparr>)
                     | (None, s, d) \<Rightarrow>
                         persistAndDetect env nfo isTVShow category mediaName mediaRecord
                           (logf (Line INFO ''moved the media'')
                              ((setTargetNode category mediaName d w2) \<lparr> source := s \<rparr>))))))"

definition ClassifyAndMove :: "env \<Rightarrow> string \<Rightarrow> world \<Rightarrow> error option \<times> world" where
  "ClassifyAndMove env nfoPath w =
     (case ParseNFO env nfoPath of
        Inl err \<Rightarrow> (Some (ErrWrapped ''parsing the NFO failed'' err), w)
      | Inr nfo \<Rightarrow>
          (case ReadDir env w of
             Inl err \<Rightarrow> (Some (ErrWrapped ''reading the directory failed'' err), w)
           | Inr entries \<Rightarrow>
               if countNFO (tables env) entries > 1
               then (None, logf (Line ERROR ''several NFO files in the directory, skipped'') w)
               else if \<not> isNFOResolved (tables env) nfo
               then (None, logf (Line INFO ''the NFO is incomplete, skipped'') w)
               else
                 (case chooseCountries env nfo (IsTVShow nfo) w of
                    (countries, w1) \<Rightarrow>
                      if countries = []
                      then (None, logf (Line WARNING ''no country information, skipped'') w1)
                      else
                        (case DetermineCategory (tables env) countries (IsTVShow nfo) (nfo_Genres nfo) of
                           Inl err \<Rightarrow> (Some (ErrWrapped ''determining the category failed'' err), w1)
                         | Inr category \<Rightarrow>
                             if isProjectDirectory (source w1)
                             then (None, logf (Line INFO ''project directory, skipped'') w1)
                             else if \<not> IsSimplifiedChinese (tables env) (nfo_Title nfo)
                             then (None, logf (Line INFO ''the title is not Chinese, skipped'') w1)
                             else if list_ex (\<lambda>genre. \<not> IsSimplifiedChinese (tables env) genre) (nfo_Genres nfo)
                             then (None, logf (Line INFO ''a genre is not Chinese, skipped'') w1)
                             else placeAndRecord env nfoPath nfo (IsTVShow nfo) countries category w1))))"


section \<open>Sample inputs\<close>

text \<open>Concrete records and states on which the model is run.\<close>

definition zhMoonChild :: string where \<comment> \<open>U+6708 U+306E U+5B50, the title of a series\<close>
  "zhMoonChild = [CHR 0xE6, CHR 0x9C, CHR 0x88, CHR 0xE3, CHR 0x81, CHR 0xAE, CHR 0xE5, CHR 0xAD, CHR 0x90]"

definition zhInfernalAffairs :: string where \<comment> \<open>U+65E0 U+95F4 U+9053, the title of a movie\<close>
  "zhInfernalAffairs = [CHR 0xE6, CHR 0x97, CHR 0xA0, CHR 0xE9, CHR 0x97, CHR 0xB4, CHR 0xE9, CHR 0x81, CHR 0x93]"

definition zhDrama :: string where \<comment> \<open>U+5267 U+60C5, the genre drama\<close>
  "zhDrama = [CHR 0xE5, CHR 0x89, CHR 0xA7, CHR 0xE6, CHR 0x83, CHR 0x85]"

text \<open>The zero value of the struct.\<close>

definition zeroMediaRecord :: MediaRecord where
  "zeroMediaRecord =
     \<lparr> ID = 0, FileName = [], Title = [], OriginalTitle = [], Year = [], Country = [],
       Genres = [], Actors = [], Category = [], SourcePath = [], TargetPath = [],
       ProcessedAt = 0, UpdatedAt = 0, Runtime = [], Plot = [], IMDbID = [], TMDbID = [],
       Season = [], Episode = [], Director = [], Writer = [], Rating = [], Resolution = [],
       Version = 0, IsComplete = False \<rparr>"

text \<open>The record of a series whose metadata file has no season element, and the record of a
  movie built at time 5.\<close>

definition sampleSeriesRecord :: MediaRecord where
  "sampleSeriesRecord =
     zeroMediaRecord \<lparr> FileName := ''tvshow.nfo'', Title := zhMoonChild, Year := ''2021'',
       Category := CategoryJpKrShow, TMDbID := ''1399'' \<rparr>"

definition sampleMovieRecord :: MediaRecord where
  "sampleMovieRecord =
     zeroMediaRecord \<lparr> FileName := ''movie.nfo'', Title := zhInfernalAffairs, Year := ''2002'',
       Category := CategoryCnMovie, ProcessedAt := 5 \<rparr>"


text \<open>A missing season and a missing episode of the series, as the tracker builds them.\<close>

definition sampleMissingSeason :: MissingSeason where
  "sampleMissingSeason =
     \<lparr> ms_ID = 0, ms_MediaID = 1, ms_Title = zhMoonChild, ms_OriginalTitle = [],
       ms_TMDbID = ''1399'', ms_Season = 2, ms_DetectedAt = 0, ms_UpdatedAt = 0, ms_Status = [] \<rparr>"

definition sampleMissingEpisode :: MissingEpisode where
  "sampleMissingEpisode =
     \<lparr> me_ID = 0, me_MediaID = 1, me_Title = zhMoonChild, me_OriginalTitle = [],
       me_TMDbID = ''1399'', me_Season = 2, me_Episode = 5, me_DetectedAt = 0, me_UpdatedAt = 0,
       me_Status = [] \<rparr>"

text \<open>
  The metadata file of the series: a Japanese and Chinese production with the genre drama,
  known to the metadata service under an identifier, with no season element.
\<close>

definition sampleSeriesNFO :: NFO where
  "sampleSeriesNFO =
     \<lparr> XMLName = ''tvshow'', nfo_Title = zhMoonChild, nfo_OriginalTitle = [], nfo_Year = ''2021'',
       nfo_Country = [zhJapan, zhChina], nfo_Genres = [zhDrama], nfo_Actors = [],
       nfo_Runtime = [], nfo_Plot = [], nfo_IMDbID = [], nfo_TMDbID = ''1399'', nfo_Season = [],
       nfo_Episode = [], nfo_Director = [], nfo_Writer = [], nfo_Rating = [] \<rparr>"

text \<open>The same file with an English title, as an unscraped or foreign-language file has it.\<close>

definition sampleEnglishNFO :: NFO where
  "sampleEnglishNFO = sampleSeriesNFO \<lparr> nfo_Title := ''Moon Child'' \<rparr>"

text \<open>
  An environment in which the metadata service is down: both lookups fail. The library is on
  another device than the media directory.
\<close>

definition offlineEnv :: env where
  "offlineEnv =
     \<lparr> tables = cjkTables,
       ParseNFO = (\<lambda>path. Inr sampleSeriesNFO),
       CloudDir = ''/cloud'',
       TMDBApiKey = ''key'',
       GetProductionCountries = (\<lambda>tmdbID isTVShow. Inl ErrService),
       GetTVShowSeasons = (\<lambda>tmdbID. Inl ErrService),
       clock = (\<lambda>k. 100 + k),
       sameDevice = False,
       mediaDirReadable = True \<rparr>"

text \<open>The same with the service answering: the series has two seasons.\<close>

definition onlineEnv :: env where
  "onlineEnv =
     offlineEnv \<lparr> GetProductionCountries := (\<lambda>tmdbID isTVShow. Inr [zhJapan]),
                  GetTVShowSeasons := (\<lambda>tmdbID. Inr 2) \<rparr>"

definition samplePath :: string where
  "samplePath = ''/tmp/'' @ zhMoonChild @ ''/tvshow.nfo''"

text \<open>
  A media directory with two seasons and the metadata file, and a library that already
  holds the first season of the series (another copy of its episode) and the metadata file.
\<close>

definition sourceSeasons :: node where
  "sourceSeasons =
     Dir [(''Season 1'', Dir [(''e1.mkv'', File ''season 1, new copy'')]),
          (''Season 2'', Dir [(''e1.mkv'', File ''season 2'')]),
          (''tvshow.nfo'', File ''nfo, new copy'')]"

definition libraryFirstSeason :: node where
  "libraryFirstSeason =
     Dir [(''Season 1'', Dir [(''e1.mkv'', File ''season 1, old copy'')]),
          (''tvshow.nfo'', File ''nfo, old copy'')]"

definition mergeWorld :: world where
  "mergeWorld =
     \<lparr> source = Some sourceSeasons,
       cloud = (\<lambda>category. None)(CategoryJpKrShow := Some (Dir [(zhMoonChild, libraryFirstSeason)])),
       store = emptyDatabase,
       journal = [],
       tick = 0 \<rparr>"


text \<open>The environment whose metadata file has the English title.\<close>

definition englishEnv :: env where
  "englishEnv = offlineEnv \<lparr> ParseNFO := (\<lambda>path. Inr sampleEnglishNFO) \<rparr>"


text \<open>The metadata file of the series without a country element.\<close>

definition noCountryEnv :: env where
  "noCountryEnv = offlineEnv \<lparr> ParseNFO := (\<lambda>path. Inr (sampleSeriesNFO \<lparr> nfo_Country := [] \<rparr>)) \<rparr>"

text \<open>A media directory that holds nothing new: the first season and the metadata file.\<close>

definition repeatWorld :: world where
  "repeatWorld =
     mergeWorld \<lparr> source := Some (Dir [(''Season 1'', Dir [(''e1.mkv'', File ''season 1, new copy'')]),
                                         (''tvshow.nfo'', File ''nfo, new copy'')]) \<rparr>"



text \<open>The library after the merge of the second season, and a state whose store holds the row
  of the series, written by a first upsert at time 100.\<close>

definition libraryBothSeasons :: node where
  "libraryBothSeasons =
     Dir [(''Season 1'', Dir [(''e1.mkv'', File ''season 1, old copy'')]),
          (''Season 2'', Dir [(''e1.mkv'', File ''season 2'')]),
          (''tvshow.nfo'', File ''nfo, old copy'')]"

definition recordedWorld :: world where
  "recordedWorld =
     mergeWorld \<lparr> store := snd (InsertOrUpdateMediaRecord 100 sampleSeriesRecord emptyDatabase) \<rparr>"


section \<open>Predicates of the specification on the store\<close>

text \<open>The natural keys of the rows with status missing, in row order: title, external id and
  season, and for an episode also the episode. The invariant of the specification is that
  each list is \<^const>\<open>distinct\<close>.\<close>

definition missingSeasonKeys :: "database \<Rightarrow> (string \<times> string \<times> int) list" where
  "missingSeasonKeys db =
     map (\<lambda>row. (ms_Title row, ms_TMDbID row, ms_Season row))
       (filter (\<lambda>row. ms_Status row = ''missing'') (missing_seasons db))"

definition missingEpisodeKeys :: "database \<Rightarrow> (string \<times> string \<times> int \<times> int) list" where
  "missingEpisodeKeys db =
     map (\<lambda>row. (me_Title row, me_TMDbID row, me_Season row, me_Episode row))
       (filter (\<lambda>row. me_Status row = ''missing'') (missing_episodes db))"


section \<open>Well-formed directory trees\<close>

text \<open>A listing is well formed when its names are in strictly ascending byte order, here
  and in every subdirectory: the listings \<^verbatim>\<open>os.ReadDir\<close> can return.\<close>

fun wellFormed :: "node \<Rightarrow> bool"
and wellFormedEntries :: "(string \<times> node) list \<Rightarrow> bool" where
  "wellFormed (File content) = True"
| "wellFormed (Dir entries) = wellFormedEntries entries"
| "wellFormedEntries [] = True"
| "wellFormedEntries ((name, n) # entries) =
     (wellFormed n \<and> list_all (\<lambda>entry. strLess name (fst entry)) entries \<and> wellFormedEntries entries)"



section \<open>Properties of the locale classifier\<close>

lemma no_override_unfold:
  "hasGenreOverride U genres \<longleftrightarrow>
     list_ex (\<lambda>genre. Contains (ToLower U genre) zhDocumentary
                      \<or> Contains (ToLower U genre) ''documentary'') genres
     \<or> list_ex (\<lambda>genre. let genreLower = ToLower U genre
                         in list_ex (\<lambda>keyword. Contains genreLower keyword) varietyKeywords) genres
     \<or> list_ex (\<lambda>genre. Contains (ToLower U genre) zhAnime
                         \<or> Contains (ToLower U genre) zhAnimation
                         \<or> Contains (ToLower U genre) ''animation'') genres"
  by (induction genres)
     (auto simp: hasGenreOverride_def matchesKeywords_def documentaryKeywords_def
        animeKeywords_def Let_def list_ex_iff)

lemma DetermineCategory_no_override:
  assumes "\<not> hasGenreOverride U genres"
  shows "DetermineCategory U countries isTVShow genres =
           (case countries of
              [] \<Rightarrow> Inl ErrNoCountry
            | country # _ \<Rightarrow> Inr (countryCategory U country isTVShow))"
proof -
  from assms have
    "\<not> list_ex (\<lambda>genre. Contains (ToLower U genre) zhDocumentary
                        \<or> Contains (ToLower U genre) ''documentary'') genres"
    "\<not> list_ex (\<lambda>genre. let genreLower = ToLower U genre
                        in list_ex (\<lambda>keyword. Contains genreLower keyword) varietyKeywords) genres"
    "\<not> list_ex (\<lambda>genre. Contains (ToLower U genre) zhAnime
                        \<or> Contains (ToLower U genre) zhAnimation
                        \<or> Contains (ToLower U genre) ''animation'') genres"
    unfolding no_override_unfold by blast+
  then show ?thesis
    unfolding DetermineCategory_def
    by (simp add: countryCategory_def matchesKeywords_def japanKoreaKeywords_def
          chinaKeywords_def Let_def split: list.split)
qed

text \<open>
  C1. When no genre triggers the documentary, variety or anime override, the category of a
  non-empty country list is decided by its first entry alone, whatever follows it: the
  Japan/Korea category when the first entry matches the Japan/Korea keywords, otherwise the
  China/Hong Kong/Taiwan category when it matches those keywords, otherwise the
  international category; each in its series or movie form. In particular the list
  Germany, Japan of a series with no genres is classified EnShow, not Jp&KrShow.
\<close>

theorem DetermineCategory_first_country:
  assumes "\<not> hasGenreOverride U genres"
  shows "DetermineCategory U (country # rest) isTVShow genres
           = Inr (countryCategory U country isTVShow)
         \<and> DetermineCategory U (country # rest) isTVShow genres
           = DetermineCategory U [country] isTVShow genres
         \<and> DetermineCategory U [''Germany'', ''Japan''] True [] = Inr CategoryEnShow
         \<and> DetermineCategory U [''Germany'', ''Japan''] True [] \<noteq> Inr CategoryJpKrShow"
proof -
  have general: "DetermineCategory U (c # r) tv genres = Inr (countryCategory U c tv)" for c r tv
    using DetermineCategory_no_override [OF assms, of "c # r" tv] by simp
  have lower: "ToLower U ''Germany'' = ''germany''"
    by (simp add: ToLower_def isASCII_def) code_simp
  have none: "\<not> hasGenreOverride U []"
    by (simp add: hasGenreOverride_def)
  have "countryCategory U ''Germany'' True = CategoryEnShow"
    by (simp add: countryCategory_def matchesKeywords_def lower japanKoreaKeywords_def
          chinaKeywords_def zh_defs)
  then have example: "DetermineCategory U [''Germany'', ''Japan''] True [] = Inr CategoryEnShow"
    using DetermineCategory_no_override [OF none, of "[''Germany'', ''Japan'']" True] by simp
  have "CategoryEnShow \<noteq> CategoryJpKrShow"
    by (simp add: Category_defs)
  with general example show ?thesis by simp
qed

theorem DetermineCategory_first_country_witness:
  "\<not> hasGenreOverride cjkTables [''Drama'']
   \<and> DetermineCategory cjkTables [''Germany'', ''Japan''] True [''Drama''] = Inr CategoryEnShow
   \<and> DetermineCategory cjkTables [''Japan'', ''Germany''] True [''Drama''] = Inr CategoryJpKrShow
   \<and> DetermineCategory cjkTables [''Hong Kong'', ''Japan''] False [''Drama''] = Inr CategoryCnMovie"
proof -
  have lower: "ToLower cjkTables ''Drama'' = ''drama''"
    "ToLower cjkTables ''Germany'' = ''germany''"
    "ToLower cjkTables ''Japan'' = ''japan''"
    "ToLower cjkTables ''Hong Kong'' = ''hong kong''"
    by (simp add: ToLower_def isASCII_def, code_simp)+
  have h: "\<not> hasGenreOverride cjkTables [''Drama'']"
    by (simp add: hasGenreOverride_def matchesKeywords_def lower documentaryKeywords_def
          varietyKeywords_def animeKeywords_def zh_defs)
  have cat: "countryCategory cjkTables ''Germany'' True = CategoryEnShow"
    "countryCategory cjkTables ''Japan'' True = CategoryJpKrShow"
    "countryCategory cjkTables ''Hong Kong'' False = CategoryCnMovie"
    by (simp_all add: countryCategory_def matchesKeywords_def lower japanKoreaKeywords_def
          chinaKeywords_def zh_defs)
  show ?thesis
    using h cat
      DetermineCategory_first_country [OF h, of "''Germany''" "[''Japan'']" True]
      DetermineCategory_first_country [OF h, of "''Japan''" "[''Germany'']" True]
      DetermineCategory_first_country [OF h, of "''Hong Kong''" "[''Japan'']" False]
    by simp
qed

section \<open>Properties of the catalog repository\<close>

lemma c_id_insertedRow [simp]: "c_id (insertedRow now newId r) = newId"
  by (simp add: insertedRow_def)

lemma like_JpKrShow: "sqlLike ''%Show'' CategoryJpKrShow"
  unfolding CategoryJpKrShow_def by code_simp

lemma series_not_found:
  "\<not> existingRecordQuery sampleSeriesRecord (insertedRow now newId sampleSeriesRecord)"
  by (simp add: existingRecordQuery_def sampleSeriesRecord_def zeroMediaRecord_def insertedRow_def
        columnNotLike_def like_JpKrShow)

text \<open>
  C2. Two upserts in a row of the same record are to leave one stored row for its natural
  key, two versions on. For the record of a series without a season number the code does
  not: the lookup takes the movie query, which excludes every row whose category ends in
  Show, so it never finds the row of the series, and each call inserts a row. Starting from
  the empty store the two calls leave two rows with the same title, both at version 1.
\<close>

theorem upsert_twice_series_without_season:
  "InsertOrUpdateMediaRecord 2 sampleSeriesRecord
     (snd (InsertOrUpdateMediaRecord 1 sampleSeriesRecord emptyDatabase))
   = (None, emptyDatabase \<lparr> media_records := [insertedRow 1 1 sampleSeriesRecord,
                                                    insertedRow 2 2 sampleSeriesRecord],
                              media_records_seq := 2 \<rparr>)
   \<and> map c_version [insertedRow 1 1 sampleSeriesRecord, insertedRow 2 2 sampleSeriesRecord]
       = [Some 1, Some 1]
   \<and> map c_title [insertedRow 1 1 sampleSeriesRecord, insertedRow 2 2 sampleSeriesRecord]
       = [Some zhMoonChild, Some zhMoonChild]"
proof -
  have first: "InsertOrUpdateMediaRecord 1 sampleSeriesRecord emptyDatabase
      = (None, emptyDatabase \<lparr> media_records := [insertedRow 1 1 sampleSeriesRecord],
                                 media_records_seq := 1 \<rparr>)"
    by (simp add: InsertOrUpdateMediaRecord_def emptyDatabase_def nextRowId_def)
  have second: "InsertOrUpdateMediaRecord 2 sampleSeriesRecord
        (emptyDatabase \<lparr> media_records := [insertedRow 1 1 sampleSeriesRecord], media_records_seq := 1 \<rparr>)
      = (None, emptyDatabase \<lparr> media_records := [insertedRow 1 1 sampleSeriesRecord,
                                                       insertedRow 2 2 sampleSeriesRecord],
                                 media_records_seq := 2 \<rparr>)"
    by (simp add: InsertOrUpdateMediaRecord_def emptyDatabase_def nextRowId_def series_not_found)
  have fields: "Version sampleSeriesRecord = 0" "Title sampleSeriesRecord = zhMoonChild"
    by (simp_all add: sampleSeriesRecord_def zeroMediaRecord_def)
  show ?thesis
    unfolding first snd_conv second by (simp add: insertedRow_def fields)
qed

text \<open>What does hold of an update: the row found keeps its place and its version goes up
  by one; no row is added.\<close>

lemma InsertOrUpdateMediaRecord_update:
  assumes "find (existingRecordQuery r) (media_records db) = Some existing"
      and "c_version existing = Some v"
  shows "InsertOrUpdateMediaRecord now r db =
           (None, db \<lparr> media_records :=
              map (\<lambda>row. if c_id row = c_id existing then updatedRow now v r row else row)
                  (media_records db) \<rparr>)"
    and "c_version (updatedRow now v r existing) = Some (v + 1)"
  using assms by (simp_all add: InsertOrUpdateMediaRecord_def updatedRow_def)

lemma filterSelects_noFilter: "filterSelects noFilter row"
  by (simp add: filterSelects_def noFilter_def)

lemma scanMediaRows_append:
  "scanMediaRows now (xs @ ys) =
     (case scanMediaRows now xs of
        Inl e \<Rightarrow> Inl e
      | Inr rs \<Rightarrow> (case scanMediaRows now ys of Inl e \<Rightarrow> Inl e | Inr rs' \<Rightarrow> Inr (rs @ rs')))"
  by (induction xs) (auto split: sum.splits)

lemma scan_inserted:
  "scanMediaRow later (insertedRow now newId r) =
     Inr (r \<lparr> ID := newId, ProcessedAt := now, UpdatedAt := now,
              Version := (if Version r > 0 then Version r else 1) \<rparr>)"
  by (cases r) (simp add: scanMediaRow_def insertedRow_def orEmpty_def)

text \<open>
  C8, as the claim states it: a record inserted and read back differs from the one handed
  in only in version and updated-timestamp. It does not: the insert stamps the processed
  timestamp with the time of the insert and the store assigns the id. The movie record built
  at time 5 with id 0 and inserted at time 6 comes back with processed timestamp 6 and id 1.
\<close>

theorem roundtrip_counterexample:
  "GetMediaRecords 7 noFilter (snd (InsertOrUpdateMediaRecord 6 sampleMovieRecord emptyDatabase)) =
       Inr [sampleMovieRecord \<lparr> ID := 1, ProcessedAt := 6, UpdatedAt := 6, Version := 1 \<rparr>]
   \<and> ProcessedAt sampleMovieRecord = 5 \<and> ID sampleMovieRecord = 0"
proof -
  have "InsertOrUpdateMediaRecord 6 sampleMovieRecord emptyDatabase
      = (None, emptyDatabase \<lparr> media_records := [insertedRow 6 1 sampleMovieRecord],
                                 media_records_seq := 1 \<rparr>)"
    by (simp add: InsertOrUpdateMediaRecord_def emptyDatabase_def nextRowId_def)
  moreover have "Version sampleMovieRecord = 0" "ProcessedAt sampleMovieRecord = 5"
      "ID sampleMovieRecord = 0"
    by (simp_all add: sampleMovieRecord_def zeroMediaRecord_def)
  ultimately show ?thesis
    by (simp add: GetMediaRecords_def emptyDatabase_def filterSelects_noFilter scan_inserted)
qed

text \<open>
  C8, amended: when the lookup finds no stored row for the record, the call inserts it, and
  reading the table back returns the rows that were there followed by the record with all
  its fields unchanged except four: the id (assigned by the store), the processed and the
  updated timestamp (both the time of the insert) and the version (kept when positive,
  otherwise 1).
\<close>

theorem insert_then_query:
  assumes "find (existingRecordQuery r) (media_records db) = None"
      and "GetMediaRecords later noFilter db = Inr before"
  shows "fst (InsertOrUpdateMediaRecord now r db) = None
         \<and> GetMediaRecords later noFilter (snd (InsertOrUpdateMediaRecord now r db)) =
             Inr (before @
               [r \<lparr> ID := nextRowId (media_records_seq db) (map c_id (media_records db)),
                    ProcessedAt := now, UpdatedAt := now,
                    Version := (if Version r > 0 then Version r else 1) \<rparr>])"
  using assms
  by (simp add: InsertOrUpdateMediaRecord_def GetMediaRecords_def Let_def filterSelects_noFilter
        scanMediaRows_append scan_inserted)

theorem insert_then_query_witness:
  "find (existingRecordQuery sampleMovieRecord) (media_records emptyDatabase) = None
   \<and> GetMediaRecords 7 noFilter emptyDatabase = Inr []
   \<and> GetMediaRecords 7 noFilter (snd (InsertOrUpdateMediaRecord 6 sampleMovieRecord emptyDatabase)) =
       Inr [sampleMovieRecord \<lparr> ID := 1, ProcessedAt := 6, UpdatedAt := 6, Version := 1 \<rparr>]"
proof -
  have h1: "find (existingRecordQuery sampleMovieRecord) (media_records emptyDatabase) = None"
    by (simp add: emptyDatabase_def)
  have h2: "GetMediaRecords 7 noFilter emptyDatabase = Inr []"
    by (simp add: GetMediaRecords_def emptyDatabase_def)
  have v: "Version sampleMovieRecord = 0"
    by (simp add: sampleMovieRecord_def zeroMediaRecord_def)
  have n: "nextRowId (media_records_seq emptyDatabase) (map c_id (media_records emptyDatabase)) = 1"
    by (simp add: nextRowId_def emptyDatabase_def)
  show ?thesis
    using insert_then_query [OF h1 h2, of 6] h1 h2 by (simp add: v n)
qed

section \<open>Properties of the missing-item tables and of detection\<close>

lemma find_season_rows:
  "find (missingSeasonQuery s) rows = None
     \<longleftrightarrow> (ms_Title s, ms_TMDbID s, ms_Season s)
          \<notin> set (map (\<lambda>row. (ms_Title row, ms_TMDbID row, ms_Season row))
                    (filter (\<lambda>row. ms_Status row = ''missing'') rows))"
  by (induction rows) (auto simp: missingSeasonQuery_def)

lemma find_season_None:
  "find (missingSeasonQuery s) (missing_seasons db) = None
     \<longleftrightarrow> (ms_Title s, ms_TMDbID s, ms_Season s) \<notin> set (missingSeasonKeys db)"
  unfolding missingSeasonKeys_def by (rule find_season_rows)

lemma find_episode_rows:
  "find (missingEpisodeQuery e) rows = None
     \<longleftrightarrow> (me_Title e, me_TMDbID e, me_Season e, me_Episode e)
          \<notin> set (map (\<lambda>row. (me_Title row, me_TMDbID row, me_Season row, me_Episode row))
                    (filter (\<lambda>row. me_Status row = ''missing'') rows))"
  by (induction rows) (auto simp: missingEpisodeQuery_def)

lemma find_episode_None:
  "find (missingEpisodeQuery e) (missing_episodes db) = None
     \<longleftrightarrow> (me_Title e, me_TMDbID e, me_Season e, me_Episode e) \<notin> set (missingEpisodeKeys db)"
  unfolding missingEpisodeKeys_def by (rule find_episode_rows)

lemma InsertMissingSeason_present:
  assumes "(ms_Title s, ms_TMDbID s, ms_Season s) \<in> set (missingSeasonKeys db)"
  shows "InsertMissingSeason t1 t2 s db = (None, db)"
proof -
  from assms have "find (missingSeasonQuery s) (missing_seasons db) \<noteq> None"
    by (simp add: find_season_None)
  then show ?thesis
    by (auto simp: InsertMissingSeason_def)
qed

lemma InsertMissingSeason_absent:
  assumes "(ms_Title s, ms_TMDbID s, ms_Season s) \<notin> set (missingSeasonKeys db)"
  shows "missingSeasonKeys (snd (InsertMissingSeason t1 t2 s db))
           = missingSeasonKeys db @ [(ms_Title s, ms_TMDbID s, ms_Season s)]"
proof -
  from assms have "find (missingSeasonQuery s) (missing_seasons db) = None"
    by (simp add: find_season_None)
  then show ?thesis
    by (simp add: InsertMissingSeason_def Let_def missingSeasonKeys_def)
qed

lemma InsertMissingSeason_keys:
  "set (missingSeasonKeys (snd (InsertMissingSeason t1 t2 s db)))
     = insert (ms_Title s, ms_TMDbID s, ms_Season s) (set (missingSeasonKeys db))"
  by (cases "(ms_Title s, ms_TMDbID s, ms_Season s) \<in> set (missingSeasonKeys db)")
     (auto simp: InsertMissingSeason_present InsertMissingSeason_absent)

lemma InsertMissingSeason_distinct:
  assumes "distinct (missingSeasonKeys db)"
  shows "distinct (missingSeasonKeys (snd (InsertMissingSeason t1 t2 s db)))"
  using assms
  by (cases "(ms_Title s, ms_TMDbID s, ms_Season s) \<in> set (missingSeasonKeys db)")
     (auto simp: InsertMissingSeason_present InsertMissingSeason_absent)

lemma InsertMissingSeason_no_error: "fst (InsertMissingSeason t1 t2 s db) = None"
  by (simp add: InsertMissingSeason_def Let_def split: option.split)

lemma InsertMissingEpisode_present:
  assumes "(me_Title e, me_TMDbID e, me_Season e, me_Episode e) \<in> set (missingEpisodeKeys db)"
  shows "InsertMissingEpisode t1 t2 e db = (None, db)"
proof -
  from assms have "find (missingEpisodeQuery e) (missing_episodes db) \<noteq> None"
    by (simp add: find_episode_None)
  then show ?thesis
    by (auto simp: InsertMissingEpisode_def)
qed

lemma InsertMissingEpisode_absent:
  assumes "(me_Title e, me_TMDbID e, me_Season e, me_Episode e) \<notin> set (missingEpisodeKeys db)"
  shows "missingEpisodeKeys (snd (InsertMissingEpisode t1 t2 e db))
           = missingEpisodeKeys db @ [(me_Title e, me_TMDbID e, me_Season e, me_Episode e)]"
proof -
  from assms have "find (missingEpisodeQuery e) (missing_episodes db) = None"
    by (simp add: find_episode_None)
  then show ?thesis
    by (simp add: InsertMissingEpisode_def Let_def missingEpisodeKeys_def)
qed

lemma InsertMissingEpisode_distinct:
  assumes "distinct (missingEpisodeKeys db)"
  shows "distinct (missingEpisodeKeys (snd (InsertMissingEpisode t1 t2 e db)))"
  using assms
  by (cases "(me_Title e, me_TMDbID e, me_Season e, me_Episode e) \<in> set (missingEpisodeKeys db)")
     (auto simp: InsertMissingEpisode_present InsertMissingEpisode_absent)

lemma logError_fields [simp]:
  "store (logError m e w) = store w" "source (logError m e w) = source w"
  "cloud (logError m e w) = cloud w" "tick (logError m e w) = tick w"
  by (simp_all add: logError_def logf_def split: option.split)

lemma logf_fields [simp]:
  "store (logf l w) = store w" "source (logf l w) = source w"
  "cloud (logf l w) = cloud w" "tick (logf l w) = tick w"
  "journal (logf l w) = journal w @ [l]"
  by (simp_all add: logf_def)

lemma recordMissingSeasons_keys:
  "set (missingSeasonKeys (store (recordMissingSeasons env r ex todo w)))
     = set (missingSeasonKeys (store w))
       \<union> {(Title r, TMDbID r, i) | i. i \<in> set todo \<and> i \<notin> set ex}"
proof (induction todo arbitrary: w)
  case Nil
  then show ?case by simp
next
  case (Cons i rest)
  show ?case
  proof (cases "i \<in> set ex")
    case True
    then show ?thesis using Cons.IH [of w] by auto
  next
    case False
    then show ?thesis
      by (simp add: Cons.IH Let_def InsertMissingSeason_keys) blast
  qed
qed

lemma recordMissingSeasons_distinct:
  "distinct (missingSeasonKeys (store w))
     \<Longrightarrow> distinct (missingSeasonKeys (store (recordMissingSeasons env r ex todo w)))"
proof (induction todo arbitrary: w)
  case Nil
  then show ?case by simp
next
  case (Cons i rest)
  then show ?case
    by (simp add: Let_def InsertMissingSeason_distinct)
qed

lemma recordMissingSeasons_noop:
  assumes "\<forall>i \<in> set todo. i \<notin> set ex \<longrightarrow> (Title r, TMDbID r, i) \<in> set (missingSeasonKeys (store w))"
  shows "missing_seasons (store (recordMissingSeasons env r ex todo w)) = missing_seasons (store w)"
  using assms
proof (induction todo arbitrary: w)
  case Nil
  then show ?case by simp
next
  case (Cons i rest)
  show ?case
  proof (cases "i \<in> set ex")
    case True
    then show ?thesis using Cons by simp
  next
    case False
    with Cons.prems have present: "(Title r, TMDbID r, i) \<in> set (missingSeasonKeys (store w))"
      by simp
    let ?s = "\<lparr> ms_ID = 0, ms_MediaID = ID r, ms_Title = Title r, ms_OriginalTitle = OriginalTitle r,
                ms_TMDbID = TMDbID r, ms_Season = i, ms_DetectedAt = 0, ms_UpdatedAt = 0, ms_Status = [] \<rparr>"
    have noop: "InsertMissingSeason t1 t2 ?s (store w) = (None, store w)" for t1 t2
      using present by (intro InsertMissingSeason_present) simp
    let ?w = "logError ''recording the missing season failed'' None (w \<lparr> store := store w, tick := tick w + 2 \<rparr>)"
    have keys: "missingSeasonKeys (store ?w) = missingSeasonKeys (store w)"
      by simp
    have "missing_seasons (store (recordMissingSeasons env r ex rest ?w)) = missing_seasons (store ?w)"
      using Cons.prems by (intro Cons.IH) (simp add: keys)
    then show ?thesis
      using False by (simp add: Let_def noop)
  qed
qed

lemma InsertOrUpdateMediaRecord_missing [simp]:
  "missing_seasons (snd (InsertOrUpdateMediaRecord now r db)) = missing_seasons db"
  "missing_episodes (snd (InsertOrUpdateMediaRecord now r db)) = missing_episodes db"
  by (simp_all add: InsertOrUpdateMediaRecord_def Let_def split: option.split)

lemma InsertOrUpdateMediaRecord_keys [simp]:
  "missingSeasonKeys (snd (InsertOrUpdateMediaRecord now r db)) = missingSeasonKeys db"
  by (simp add: missingSeasonKeys_def)

lemma detect_twice:
  "missing_seasons (store (snd (snd (DetectMissingSeasonsAndEpisodes env target
        (fst (snd (DetectMissingSeasonsAndEpisodes env target r w)))
        (snd (snd (DetectMissingSeasonsAndEpisodes env target r w)))))))
     = missing_seasons (store (snd (snd (DetectMissingSeasonsAndEpisodes env target r w))))
   \<and> IsComplete (fst (snd (DetectMissingSeasonsAndEpisodes env target
        (fst (snd (DetectMissingSeasonsAndEpisodes env target r w)))
        (snd (snd (DetectMissingSeasonsAndEpisodes env target r w))))))
     = IsComplete (fst (snd (DetectMissingSeasonsAndEpisodes env target r w)))"
proof (cases "TMDbID r = []")
  case True
  then show ?thesis by (simp add: DetectMissingSeasonsAndEpisodes_def)
next
  case id: False
  show ?thesis
  proof (cases "GetTVShowSeasons env (TMDbID r)")
    case (Inl err)
    then show ?thesis using id by (simp add: DetectMissingSeasonsAndEpisodes_def)
  next
    case (Inr total)
    show ?thesis
    proof (cases "GetExistingSeasons target")
      case (Inl err)
      then show ?thesis using id Inr by (simp add: DetectMissingSeasonsAndEpisodes_def)
    next
      case ex: (Inr ex)
      let ?r1 = "r \<lparr> IsComplete := (int (length ex) = total) \<rparr>"
      let ?wa = "recordMissingSeasons env r ex [1..total] w"
      let ?w1 = "logError ''updating the completeness flag failed''
                   (fst (InsertOrUpdateMediaRecord (clock env (tick ?wa)) ?r1 (store ?wa)))
                   (?wa \<lparr> store := snd (InsertOrUpdateMediaRecord (clock env (tick ?wa)) ?r1 (store ?wa)),
                          tick := Suc (tick ?wa) \<rparr>)"
      have first: "DetectMissingSeasonsAndEpisodes env target r w = (None, ?r1, ?w1)"
        using id Inr ex by (simp add: DetectMissingSeasonsAndEpisodes_def Let_def)
      have keys1: "set (missingSeasonKeys (store ?w1))
          = set (missingSeasonKeys (store w)) \<union> {(Title r, TMDbID r, i) | i. i \<in> set [1..total] \<and> i \<notin> set ex}"
        by (simp add: recordMissingSeasons_keys)
      let ?wb = "recordMissingSeasons env ?r1 ex [1..total] ?w1"
      have noop: "missing_seasons (store ?wb) = missing_seasons (store ?w1)"
        by (rule recordMissingSeasons_noop) (use keys1 in auto)
      let ?w2 = "logError ''updating the completeness flag failed''
                   (fst (InsertOrUpdateMediaRecord (clock env (tick ?wb)) ?r1 (store ?wb)))
                   (?wb \<lparr> store := snd (InsertOrUpdateMediaRecord (clock env (tick ?wb)) ?r1 (store ?wb)),
                          tick := Suc (tick ?wb) \<rparr>)"
      have second: "DetectMissingSeasonsAndEpisodes env target ?r1 ?w1 = (None, ?r1, ?w2)"
        using id Inr ex by (simp add: DetectMissingSeasonsAndEpisodes_def Let_def)
      show ?thesis
        unfolding first snd_conv fst_conv second using noop by simp
    qed
  qed
qed

lemma recordMissingSeasons_distinct_detect:
  assumes "distinct (missingSeasonKeys (store w))"
  shows "distinct (missingSeasonKeys (store (snd (snd (DetectMissingSeasonsAndEpisodes env target r w)))))"
  using assms
  by (simp add: DetectMissingSeasonsAndEpisodes_def Let_def recordMissingSeasons_distinct
        split: sum.split)

text \<open>
  C6. Inserting a missing season or episode keeps the natural keys of the rows with status
  missing free of duplicates, and an insert whose natural key already has such a row changes
  nothing. Detection keeps the keys free of duplicates as well, and a second detection
  against the same directory and the same answer of the service leaves the table of missing
  seasons exactly as the first left it and computes the same completeness flag.
\<close>

theorem missing_rows_unique_and_idempotent:
  "(distinct (missingSeasonKeys db)
      \<longrightarrow> distinct (missingSeasonKeys (snd (InsertMissingSeason t1 t2 s db))))
   \<and> (distinct (missingEpisodeKeys db)
      \<longrightarrow> distinct (missingEpisodeKeys (snd (InsertMissingEpisode t1 t2 e db))))
   \<and> ((ms_Title s, ms_TMDbID s, ms_Season s) \<in> set (missingSeasonKeys db)
      \<longrightarrow> InsertMissingSeason t1 t2 s db = (None, db))
   \<and> ((me_Title e, me_TMDbID e, me_Season e, me_Episode e) \<in> set (missingEpisodeKeys db)
      \<longrightarrow> InsertMissingEpisode t1 t2 e db = (None, db))
   \<and> (distinct (missingSeasonKeys (store w))
      \<longrightarrow> distinct (missingSeasonKeys
            (store (snd (snd (DetectMissingSeasonsAndEpisodes env target r w))))))
   \<and> missing_seasons (store (snd (snd (DetectMissingSeasonsAndEpisodes env target
          (fst (snd (DetectMissingSeasonsAndEpisodes env target r w)))
          (snd (snd (DetectMissingSeasonsAndEpisodes env target r w)))))))
       = missing_seasons (store (snd (snd (DetectMissingSeasonsAndEpisodes env target r w))))
   \<and> IsComplete (fst (snd (DetectMissingSeasonsAndEpisodes env target
          (fst (snd (DetectMissingSeasonsAndEpisodes env target r w)))
          (snd (snd (DetectMissingSeasonsAndEpisodes env target r w))))))
       = IsComplete (fst (snd (DetectMissingSeasonsAndEpisodes env target r w)))"
  using detect_twice [of env target r w]
  by (simp add: InsertMissingSeason_distinct InsertMissingEpisode_distinct
        InsertMissingSeason_present InsertMissingEpisode_present
        recordMissingSeasons_distinct_detect)

theorem missing_rows_unique_and_idempotent_witness:
  "distinct (missingSeasonKeys (snd (InsertMissingEpisode 1 2 sampleMissingEpisode
        (snd (InsertMissingSeason 1 2 sampleMissingSeason emptyDatabase)))))
   \<and> (zhMoonChild, ''1399'', 2)
       \<in> set (missingSeasonKeys (snd (InsertMissingEpisode 1 2 sampleMissingEpisode
            (snd (InsertMissingSeason 1 2 sampleMissingSeason emptyDatabase)))))
   \<and> InsertMissingSeason 3 4 sampleMissingSeason
        (snd (InsertMissingEpisode 1 2 sampleMissingEpisode
           (snd (InsertMissingSeason 1 2 sampleMissingSeason emptyDatabase))))
       = (None, snd (InsertMissingEpisode 1 2 sampleMissingEpisode
                  (snd (InsertMissingSeason 1 2 sampleMissingSeason emptyDatabase))))
   \<and> distinct (missingEpisodeKeys (snd (InsertMissingEpisode 1 2 sampleMissingEpisode
        (snd (InsertMissingSeason 1 2 sampleMissingSeason emptyDatabase)))))
   \<and> (zhMoonChild, ''1399'', 2, 5)
       \<in> set (missingEpisodeKeys (snd (InsertMissingEpisode 1 2 sampleMissingEpisode
            (snd (InsertMissingSeason 1 2 sampleMissingSeason emptyDatabase)))))
   \<and> InsertMissingEpisode 3 4 sampleMissingEpisode
        (snd (InsertMissingEpisode 1 2 sampleMissingEpisode
           (snd (InsertMissingSeason 1 2 sampleMissingSeason emptyDatabase))))
       = (None, snd (InsertMissingEpisode 1 2 sampleMissingEpisode
                  (snd (InsertMissingSeason 1 2 sampleMissingSeason emptyDatabase))))
   \<and> distinct (missingSeasonKeys (store mergeWorld))
   \<and> distinct (missingSeasonKeys (store (snd (snd
        (DetectMissingSeasonsAndEpisodes onlineEnv None sampleSeriesRecord mergeWorld)))))"
proof -
  let ?db = "snd (InsertMissingEpisode 1 2 sampleMissingEpisode
               (snd (InsertMissingSeason 1 2 sampleMissingSeason emptyDatabase)))"
  have ks: "missingSeasonKeys ?db = [(zhMoonChild, ''1399'', 2)]"
    by (simp add: InsertMissingSeason_def InsertMissingEpisode_def emptyDatabase_def Let_def
          missingSeasonKeys_def sampleMissingSeason_def)
  have ke: "missingEpisodeKeys ?db = [(zhMoonChild, ''1399'', 2, 5)]"
    by (simp add: InsertMissingSeason_def InsertMissingEpisode_def emptyDatabase_def Let_def
          missingEpisodeKeys_def sampleMissingEpisode_def)
  have fs: "ms_Title sampleMissingSeason = zhMoonChild" "ms_TMDbID sampleMissingSeason = ''1399''"
      "ms_Season sampleMissingSeason = 2"
    by (simp_all add: sampleMissingSeason_def)
  have fe: "me_Title sampleMissingEpisode = zhMoonChild" "me_TMDbID sampleMissingEpisode = ''1399''"
      "me_Season sampleMissingEpisode = 2" "me_Episode sampleMissingEpisode = 5"
    by (simp_all add: sampleMissingEpisode_def)
  have kw: "distinct (missingSeasonKeys (store mergeWorld))"
    by (simp add: mergeWorld_def emptyDatabase_def missingSeasonKeys_def)
  show ?thesis
    using missing_rows_unique_and_idempotent
            [where db = ?db and ?t1.0 = 3 and ?t2.0 = 4 and s = sampleMissingSeason
               and e = sampleMissingEpisode and w = mergeWorld and env = onlineEnv
               and target = None and r = sampleSeriesRecord]
    unfolding ks ke fs fe using kw by simp
qed

section \<open>Properties of classification and placement\<close>

lemma chooseCountries_frame [simp]:
  "source (snd (chooseCountries env nfo tv w)) = source w"
  "cloud (snd (chooseCountries env nfo tv w)) = cloud w"
  "store (snd (chooseCountries env nfo tv w)) = store w"
  "tick (snd (chooseCountries env nfo tv w)) = tick w"
  by (simp_all add: chooseCountries_def split: sum.split)

lemma recordMissingSeasons_frame [simp]:
  "source (recordMissingSeasons env r ex todo w) = source w"
  "cloud (recordMissingSeasons env r ex todo w) = cloud w"
  by (induction todo arbitrary: w) (simp_all add: Let_def)

lemma DetectMissing_frame [simp]:
  "source (snd (snd (DetectMissingSeasonsAndEpisodes env target r w))) = source w"
  "cloud (snd (snd (DetectMissingSeasonsAndEpisodes env target r w))) = cloud w"
  by (simp_all add: DetectMissingSeasonsAndEpisodes_def Let_def split: sum.split)

lemma ReportSeasonStatus_frame [simp]:
  "source (snd (ReportSeasonStatus env title tmdbID target w)) = source w"
  "cloud (snd (ReportSeasonStatus env title tmdbID target w)) = cloud w"
  "store (snd (ReportSeasonStatus env title tmdbID target w)) = store w"
  by (simp_all add: ReportSeasonStatus_def split: sum.split prod.split)

lemma persistAndDetect_frame:
  "fst (persistAndDetect env nfo tv category mediaName r w) = None"
  "source (snd (persistAndDetect env nfo tv category mediaName r w)) = source w"
  "cloud (snd (persistAndDetect env nfo tv category mediaName r w)) = cloud w"
proof -
  let ?w1 = "logError ''recording the media information failed''
               (fst (InsertOrUpdateMediaRecord (clock env (tick w)) r (store w)))
               (w \<lparr> store := snd (InsertOrUpdateMediaRecord (clock env (tick w)) r (store w)),
                     tick := Suc (tick w) \<rparr>)"
  let ?target = "targetNode category mediaName ?w1"
  obtain err r' w2 where d: "DetectMissingSeasonsAndEpisodes env ?target r ?w1 = (err, r', w2)"
    by (cases "DetectMissingSeasonsAndEpisodes env ?target r ?w1") auto
  obtain err' w3 where
    rep: "ReportSeasonStatus env (nfo_Title nfo) (nfo_TMDbID nfo) ?target
            (logError ''detecting the missing seasons failed'' err w2) = (err', w3)"
    by (cases "ReportSeasonStatus env (nfo_Title nfo) (nfo_TMDbID nfo) ?target
            (logError ''detecting the missing seasons failed'' err w2)") auto
  have w2: "source w2 = source w" "cloud w2 = cloud w"
    using DetectMissing_frame [of env ?target r ?w1] by (simp_all add: d)
  have w3: "source w3 = source w" "cloud w3 = cloud w"
    using ReportSeasonStatus_frame [of env "nfo_Title nfo" "nfo_TMDbID nfo" ?target
            "logError ''detecting the missing seasons failed'' err w2"]
    by (simp_all add: rep w2)
  have unfolded: "persistAndDetect env nfo tv category mediaName r w =
      (if tv \<and> nfo_TMDbID nfo \<noteq> []
       then (None, logError ''reporting the season status failed'' err' w3)
       else (None, ?w1))"
    by (simp add: persistAndDetect_def Let_def d rep)
  show "fst (persistAndDetect env nfo tv category mediaName r w) = None"
    "source (snd (persistAndDetect env nfo tv category mediaName r w)) = source w"
    "cloud (snd (persistAndDetect env nfo tv category mediaName r w)) = cloud w"
    by (simp_all add: unfolded w3)
qed

text \<open>
  C7, as the claim states it: every call with an empty country list fails. It does not: the
  genre overrides are checked before the countries, so a documentary with no country is
  classified JlShow.
\<close>

theorem DetermineCategory_empty_countries_counterexample:
  "DetermineCategory cjkTables [] False [''Documentary''] = Inr CategoryJlShow"
proof -
  have "ToLower cjkTables ''Documentary'' = ''documentary''"
    by (simp add: ToLower_def isASCII_def) code_simp
  then show ?thesis
    by (simp add: DetermineCategory_def)
qed

text \<open>
  C7, amended: with an empty country list and no genre that triggers the documentary,
  variety or anime override, DetermineCategory fails with the no-country error and returns
  no category, for a movie and for a series alike. And ClassifyAndMove never classifies a
  title whose resolved country list is empty, whatever its genres: it logs a warning and
  returns nil, before the classifier is called.
\<close>

theorem empty_countries_not_classified:
  "(\<not> hasGenreOverride U genres \<longrightarrow> DetermineCategory U [] isTVShow genres = Inl ErrNoCountry)
   \<and> (ParseNFO env nfoPath = Inr nfo \<and> ReadDir env w = Inr entries
        \<and> countNFO (tables env) entries \<le> 1 \<and> isNFOResolved (tables env) nfo
        \<and> fst (chooseCountries env nfo (IsTVShow nfo) w) = []
      \<longrightarrow> ClassifyAndMove env nfoPath w
            = (None, logf (Line WARNING ''no country information, skipped'')
                       (snd (chooseCountries env nfo (IsTVShow nfo) w))))"
proof (intro conjI impI)
  assume "\<not> hasGenreOverride U genres"
  then show "DetermineCategory U [] isTVShow genres = Inl ErrNoCountry"
    using DetermineCategory_no_override [of U genres "[]" isTVShow] by simp
next
  assume a: "ParseNFO env nfoPath = Inr nfo \<and> ReadDir env w = Inr entries
        \<and> countNFO (tables env) entries \<le> 1 \<and> isNFOResolved (tables env) nfo
        \<and> fst (chooseCountries env nfo (IsTVShow nfo) w) = []"
  obtain countries w1 where cc: "chooseCountries env nfo (IsTVShow nfo) w = (countries, w1)"
    by (cases "chooseCountries env nfo (IsTVShow nfo) w")
  with a have "countries = []" by simp
  with a cc show "ClassifyAndMove env nfoPath w
            = (None, logf (Line WARNING ''no country information, skipped'')
                       (snd (chooseCountries env nfo (IsTVShow nfo) w)))"
    by (simp add: ClassifyAndMove_def)
qed

theorem empty_countries_not_classified_witness:
  "\<not> hasGenreOverride cjkTables [''Drama'']
   \<and> DetermineCategory cjkTables [] False [''Drama''] = Inl ErrNoCountry
   \<and> ParseNFO noCountryEnv samplePath = Inr (sampleSeriesNFO \<lparr> nfo_Country := [] \<rparr>)
   \<and> ReadDir noCountryEnv mergeWorld
       = Inr [(''Season 1'', Dir [(''e1.mkv'', File ''season 1, new copy'')]),
              (''Season 2'', Dir [(''e1.mkv'', File ''season 2'')]),
              (''tvshow.nfo'', File ''nfo, new copy'')]
   \<and> fst (chooseCountries noCountryEnv (sampleSeriesNFO \<lparr> nfo_Country := [] \<rparr>) True mergeWorld) = []
   \<and> fst (ClassifyAndMove noCountryEnv samplePath mergeWorld) = None
   \<and> source (snd (ClassifyAndMove noCountryEnv samplePath mergeWorld)) = source mergeWorld
   \<and> store (snd (ClassifyAndMove noCountryEnv samplePath mergeWorld)) = store mergeWorld"
proof -
  let ?nfo = "sampleSeriesNFO \<lparr> nfo_Country := [] \<rparr>"
  have lower: "ToLower cjkTables ''Drama'' = ''drama''"
    by (simp add: ToLower_def isASCII_def) code_simp
  have h: "\<not> hasGenreOverride cjkTables [''Drama'']"
    by (simp add: hasGenreOverride_def matchesKeywords_def lower documentaryKeywords_def
          varietyKeywords_def animeKeywords_def zh_defs)
  have parse: "ParseNFO noCountryEnv samplePath = Inr ?nfo" "tables noCountryEnv = cjkTables"
    by (simp_all add: noCountryEnv_def offlineEnv_def)
  have listing: "ReadDir noCountryEnv mergeWorld
      = Inr [(''Season 1'', Dir [(''e1.mkv'', File ''season 1, new copy'')]),
             (''Season 2'', Dir [(''e1.mkv'', File ''season 2'')]),
             (''tvshow.nfo'', File ''nfo, new copy'')]"
    by (simp add: ReadDir_def noCountryEnv_def offlineEnv_def mergeWorld_def sourceSeasons_def)
  have count: "countNFO (tables noCountryEnv)
       [(''Season 1'', Dir [(''e1.mkv'', File ''season 1, new copy'')]),
        (''Season 2'', Dir [(''e1.mkv'', File ''season 2'')]),
        (''tvshow.nfo'', File ''nfo, new copy'')] \<le> 1"
    unfolding parse by code_simp
  have resolved: "isNFOResolved (tables noCountryEnv) ?nfo"
    by (simp add: isNFOResolved_def sampleSeriesNFO_def zhMoonChild_def)
  have tv: "IsTVShow ?nfo = True"
    by (simp add: IsTVShow_def sampleSeriesNFO_def)
  have countries: "fst (chooseCountries noCountryEnv ?nfo True mergeWorld) = []"
    by (simp add: chooseCountries_def noCountryEnv_def offlineEnv_def sampleSeriesNFO_def)
  have frame: "source (snd (chooseCountries noCountryEnv ?nfo True mergeWorld)) = source mergeWorld"
    "store (snd (chooseCountries noCountryEnv ?nfo True mergeWorld)) = store mergeWorld"
    by (simp_all add: chooseCountries_def logf_def split: sum.split)
  show ?thesis
    using empty_countries_not_classified
            [where U = cjkTables and genres = "[''Drama'']" and isTVShow = False
               and env = noCountryEnv and nfoPath = samplePath and nfo = ?nfo
               and w = mergeWorld
               and entries = "[(''Season 1'', Dir [(''e1.mkv'', File ''season 1, new copy'')]),
                               (''Season 2'', Dir [(''e1.mkv'', File ''season 2'')]),
                               (''tvshow.nfo'', File ''nfo, new copy'')]"]
      h parse(1) listing count resolved countries frame
    by (simp add: tv logf_def)
qed

lemma DetermineCategory_total:
  assumes "countries \<noteq> []"
  shows "\<exists>category. DetermineCategory U countries tv genres = Inr category"
  using assms by (cases countries) (simp_all add: DetermineCategory_def Let_def)

text \<open>
  C10. A parsed metadata file whose title has no Han character, or one of whose genres has
  none, is skipped: ClassifyAndMove returns nil, and the media directory, the library and
  the store are as before, so nothing is moved, merged or recorded. The directory of the
  file is one that can be listed, as it is at every call: the two callers in \<^verbatim>\<open>main.go\<close>
  list it or walk it to find the metadata file before they call.
\<close>

theorem not_chinese_skipped:
  assumes "ParseNFO env nfoPath = Inr nfo"
      and "ReadDir env w = Inr entries"
      and "\<not> IsSimplifiedChinese (tables env) (nfo_Title nfo)
           \<or> list_ex (\<lambda>genre. \<not> IsSimplifiedChinese (tables env) genre) (nfo_Genres nfo)"
  shows "fst (ClassifyAndMove env nfoPath w) = None
         \<and> source (snd (ClassifyAndMove env nfoPath w)) = source w
         \<and> cloud (snd (ClassifyAndMove env nfoPath w)) = cloud w
         \<and> store (snd (ClassifyAndMove env nfoPath w)) = store w"
proof -
  obtain countries w1 where cc: "chooseCountries env nfo (IsTVShow nfo) w = (countries, w1)"
    by (cases "chooseCountries env nfo (IsTVShow nfo) w")
  have frame: "source w1 = source w" "cloud w1 = cloud w" "store w1 = store w"
    using chooseCountries_frame [of env nfo "IsTVShow nfo" w] by (simp_all add: cc)
  show ?thesis
  proof (cases "countries = []")
    case True
    then show ?thesis
      using assms(1,2) cc frame by (simp add: ClassifyAndMove_def)
  next
    case False
    then obtain category where
      "DetermineCategory (tables env) countries (IsTVShow nfo) (nfo_Genres nfo) = Inr category"
      using DetermineCategory_total by blast
    then show ?thesis
      using assms cc frame False by (auto simp: ClassifyAndMove_def)
  qed
qed

lemma english_title: "\<not> IsSimplifiedChinese cjkTables (nfo_Title sampleEnglishNFO)"
  by (simp add: IsSimplifiedChinese_def cjkTables_def sampleEnglishNFO_def)

theorem not_chinese_skipped_witness:
  "ParseNFO englishEnv samplePath = Inr sampleEnglishNFO
   \<and> ReadDir englishEnv mergeWorld
       = Inr [(''Season 1'', Dir [(''e1.mkv'', File ''season 1, new copy'')]),
              (''Season 2'', Dir [(''e1.mkv'', File ''season 2'')]),
              (''tvshow.nfo'', File ''nfo, new copy'')]
   \<and> \<not> IsSimplifiedChinese (tables englishEnv) (nfo_Title sampleEnglishNFO)
   \<and> fst (ClassifyAndMove englishEnv samplePath mergeWorld) = None
   \<and> source (snd (ClassifyAndMove englishEnv samplePath mergeWorld))
       = source mergeWorld
   \<and> cloud (snd (ClassifyAndMove englishEnv samplePath mergeWorld))
       = cloud mergeWorld
   \<and> store (snd (ClassifyAndMove englishEnv samplePath mergeWorld))
       = store mergeWorld"
proof -
  have h1: "ParseNFO englishEnv samplePath = Inr sampleEnglishNFO"
    by (simp add: englishEnv_def offlineEnv_def)
  have t: "tables englishEnv = cjkTables"
    by (simp add: englishEnv_def offlineEnv_def)
  have h2: "\<not> IsSimplifiedChinese (tables englishEnv) (nfo_Title sampleEnglishNFO)
            \<or> list_ex (\<lambda>genre. \<not> IsSimplifiedChinese (tables englishEnv) genre) (nfo_Genres sampleEnglishNFO)"
    using english_title by (simp add: t)
  have r: "ReadDir englishEnv mergeWorld = Inr [(''Season 1'', Dir [(''e1.mkv'', File ''season 1, new copy'')]),
          (''Season 2'', Dir [(''e1.mkv'', File ''season 2'')]),
          (''tvshow.nfo'', File ''nfo, new copy'')]"
    by (simp add: ReadDir_def englishEnv_def offlineEnv_def mergeWorld_def sourceSeasons_def)
  show ?thesis
    using not_chinese_skipped [OF h1 r h2] h1 r english_title
    by (simp add: t)
qed

lemma season_numbers:
  "GetSeasonNumberFromDirName ''Season 1'' = 1"
  "GetSeasonNumberFromDirName ''Season 2'' = 2"
  "GetSeasonNumberFromDirName ''tvshow.nfo'' = 0"
  by code_simp+

lemma map_of_putEntry [simp]: "map_of (putEntry name n entries) name = Some n"
  by (induction entries) auto

lemma targetNode_setTargetNode [simp]:
  "targetNode category mediaName (setTargetNode category mediaName (Some n) w) = Some n"
  by (simp add: targetNode_def setTargetNode_def setEntry_def)

lemma targetNode_cong:
  "cloud w' = cloud w \<Longrightarrow> targetNode category mediaName w' = targetNode category mediaName w"
  by (simp add: targetNode_def)

lemma prepareRecord_frame:
  "source (snd (prepareRecord env nfoPath nfo tv countries category w)) = source w"
  "cloud (snd (prepareRecord env nfoPath nfo tv countries category w)) = cloud w"
  "store (snd (prepareRecord env nfoPath nfo tv countries category w)) = store w"
  "set (journal w) \<subseteq> set (journal (snd (prepareRecord env nfoPath nfo tv countries category w)))"
  by (auto simp: prepareRecord_def Let_def logf_def split: sum.split option.split)







section \<open>Properties of the merge\<close>

lemma strLess_irrefl [simp]: "\<not> strLess a a"
  by (induction a) auto

lemma strLess_asym: "strLess a b \<Longrightarrow> \<not> strLess b a"
  by (induction a b rule: strLess.induct) auto

lemma putEntry_append:
  assumes "list_all (\<lambda>entry. strLess (fst entry) name) dst"
  shows "putEntry name n dst = dst @ [(name, n)]"
  using assms
proof (induction dst)
  case Nil
  then show ?case by simp
next
  case (Cons entry dst)
  obtain name' n' where entry: "entry = (name', n')" by (cases entry)
  with Cons.prems have less: "strLess name' name" by simp
  then have "name \<noteq> name'" "\<not> strLess name name'"
    using strLess_asym by auto
  with Cons entry show ?case by simp
qed

lemma map_of_less:
  assumes "list_all (\<lambda>entry. strLess (fst entry) name) dst"
  shows "map_of dst name = None"
  using assms by (induction dst) auto

lemma Rename_cross [simp]: "Rename False (Some s) dst = RenameFailed"
  by (simp add: Rename_def)

lemma Rename_free [simp]: "Rename True (Some s) None = Renamed s"
  by (simp add: Rename_def)

lemma copy_well_formed:
  "wellFormed n \<Longrightarrow> IsDir n \<Longrightarrow> moveExisting False n None = (None, None, Some n)"
  "wellFormedEntries todo \<Longrightarrow> list_all (\<lambda>entry. list_all (\<lambda>t. strLess (fst entry) (fst t)) todo) dst
     \<Longrightarrow> \<exists>src'. copyEntries False todo src dst = (None, src', dst @ todo)"
proof (induction n and todo arbitrary: and src dst rule: wellFormed_wellFormedEntries.induct)
  case (1 content)
  then show ?case by simp
next
  case (2 entries)
  then have "\<exists>src'. copyEntries False entries entries [] = (None, src', [] @ entries)"
    by (intro "2.IH") simp_all
  then show ?case by auto
next
  case 3
  then show ?case by simp
next
  case (4 name n entries)
  from "4.prems" have wf: "wellFormed n" "list_all (\<lambda>entry. strLess name (fst entry)) entries"
      "wellFormedEntries entries"
    by simp_all
  from "4.prems" have below: "list_all (\<lambda>entry. strLess (fst entry) name) dst"
      "list_all (\<lambda>entry. list_all (\<lambda>t. strLess (fst entry) (fst t)) entries) dst"
    by (simp_all add: list_all_iff)
  have free: "map_of dst name = None"
    using below(1) by (rule map_of_less)
  have put: "putEntry name x dst = dst @ [(name, x)]" for x
    using below(1) by (rule putEntry_append)
  have next_below: "list_all (\<lambda>entry. list_all (\<lambda>t. strLess (fst entry) (fst t)) entries)
                      (dst @ [(name, x)])" for x
    using below(2) wf(2) by simp
  show ?case
  proof (cases n)
    case (File content)
    have "\<exists>src'. copyEntries False entries src (dst @ [(name, File content)])
             = (None, src', (dst @ [(name, File content)]) @ entries)"
      using wf(3) next_below by (rule "4.IH"(2))
    then show ?thesis
      using File by (simp add: free put)
  next
    case (Dir children)
    have moved: "moveExisting False (Dir children) None = (None, None, Some (Dir children))"
      using "4.IH"(1) wf(1) Dir by simp
    have "\<exists>src'. copyEntries False entries (setEntry name None src) (dst @ [(name, Dir children)])
             = (None, src', (dst @ [(name, Dir children)]) @ entries)"
      using wf(3) next_below by (rule "4.IH"(2))
    then show ?thesis
      using Dir by (simp add: free moved setEntry_def put del: moveExisting.simps)
  qed
qed

lemma MoveDirectory_free:
  assumes "sameDev \<or> wellFormedEntries entries"
  shows "MoveDirectory sameDev (Some (Dir entries)) None = (None, None, Some (Dir entries))"
proof (cases sameDev)
  case True
  then show ?thesis by (simp add: MoveDirectory_def)
next
  case False
  with assms have "wellFormed (Dir entries)" by simp
  then show ?thesis
    using False copy_well_formed(1) [of "Dir entries"] by (simp add: MoveDirectory_def)
qed

lemma MkdirAll_existing:
  assumes "targetNode category mediaName w = Some t"
  shows "MkdirAll category w = (None, w)"
  using assms by (auto simp: targetNode_def MkdirAll_def split: option.splits node.splits)

lemma merge_scenario_loop:
  assumes "sameDev \<or> wellFormedEntries b"
  shows "\<exists>src' lines'.
           mergeEntries sameDev
             [(''Season 1'', Dir a), (''Season 2'', Dir b), (''tvshow.nfo'', File c)]
             ([(''Season 1'', Dir a), (''Season 2'', Dir b), (''tvshow.nfo'', File c)],
              [(''Season 1'', Dir d), (''tvshow.nfo'', File c')], lines)
           = (src', [(''Season 1'', Dir d), (''Season 2'', Dir b), (''tvshow.nfo'', File c')], lines @ lines')"
proof -
  have first: "mergeEntry sameDev (''Season 1'', Dir a)
      ([(''Season 1'', Dir a), (''Season 2'', Dir b), (''tvshow.nfo'', File c)],
       [(''Season 1'', Dir d), (''tvshow.nfo'', File c')], lines)
    = ([(''Season 1'', Dir a), (''Season 2'', Dir b), (''tvshow.nfo'', File c)],
       [(''Season 1'', Dir d), (''tvshow.nfo'', File c')],
       lines @ [SeasonsLine WARNING ''the season exists at the destination, skipped'' [1]])"
    by (simp add: mergeEntry_def season_numbers GetExistingSeasons_def seasonDirs_def)
  have second: "mergeEntry sameDev (''Season 2'', Dir b)
      ([(''Season 1'', Dir a), (''Season 2'', Dir b), (''tvshow.nfo'', File c)],
       [(''Season 1'', Dir d), (''tvshow.nfo'', File c')], ls)
    = ([(''Season 1'', Dir a), (''tvshow.nfo'', File c)],
       [(''Season 1'', Dir d), (''Season 2'', Dir b), (''tvshow.nfo'', File c')],
       ls @ [Line INFO ''merged into the destination''])" for ls
    using MoveDirectory_free [OF assms]
    by (simp add: mergeEntry_def setEntry_def removeEntry_def)
  have third: "mergeEntry sameDev (''tvshow.nfo'', File c)
      ([(''Season 1'', Dir a), (''tvshow.nfo'', File c)],
       [(''Season 1'', Dir d), (''Season 2'', Dir b), (''tvshow.nfo'', File c')], ls)
    = ([(''Season 1'', Dir a), (''tvshow.nfo'', File c)],
       [(''Season 1'', Dir d), (''Season 2'', Dir b), (''tvshow.nfo'', File c')],
       ls @ [Line WARNING ''exists at the destination, skipped''])" for ls
    by (simp add: mergeEntry_def season_numbers)
  show ?thesis
    by (simp add: first second third)
qed


lemma scenario_seasons:
  "HasNewSeasons mediaName
     (Inr [(''Season 1'', Dir a), (''Season 2'', Dir b), (''tvshow.nfo'', File c)])
     (Some (Dir [(''Season 1'', Dir d), (''tvshow.nfo'', File c')])) = Inr (True, [2])"
  by (simp add: HasNewSeasons_def GetExistingSeasons_def GetNewSeasons_def seasonDirs_def
        season_numbers)

lemma merge_scenario_run:
  assumes src: "source w = Some (Dir [(''Season 1'', Dir a), (''Season 2'', Dir b),
                                      (''tvshow.nfo'', File c)])"
    and dst: "targetNode category (filepath_Base (filepath_Dir nfoPath)) w
                = Some (Dir [(''Season 1'', Dir d), (''tvshow.nfo'', File c')])"
    and readable: "mediaDirReadable env"
    and wf: "sameDevice env \<or> wellFormedEntries b"
  shows "\<exists>r w4. placeAndRecord env nfoPath nfo True countries category w
               = persistAndDetect env nfo True category (filepath_Base (filepath_Dir nfoPath)) r w4
           \<and> source w4 = None
           \<and> targetNode category (filepath_Base (filepath_Dir nfoPath)) w4
               = Some (Dir [(''Season 1'', Dir d), (''Season 2'', Dir b), (''tvshow.nfo'', File c')])
           \<and> SeasonsLine INFO ''new seasons found, merging'' [2] \<in> set (journal w4)"
proof -
  let ?name = "filepath_Base (filepath_Dir nfoPath)"
  let ?entries = "[(''Season 1'', Dir a), (''Season 2'', Dir b), (''tvshow.nfo'', File c)]"
  let ?old = "[(''Season 1'', Dir d), (''tvshow.nfo'', File c')]"
  let ?new = "[(''Season 1'', Dir d), (''Season 2'', Dir b), (''tvshow.nfo'', File c')]"
  obtain r w2 where prep: "prepareRecord env nfoPath nfo True countries category w = (r, w2)"
    by (cases "prepareRecord env nfoPath nfo True countries category w")
  have w2: "source w2 = source w" "cloud w2 = cloud w"
    using prepareRecord_frame(1-3) [of env nfoPath nfo True countries category w]
    by (simp_all add: prep)
  have target2: "targetNode category ?name w2 = Some (Dir ?old)"
    using dst targetNode_cong [OF w2(2)] by simp
  have read2: "ReadDir env w2 = Inr ?entries"
    using src readable w2 by (simp add: ReadDir_def)
  let ?line = "SeasonsLine INFO ''new seasons found, merging'' [2]"
  let ?w3 = "logf ?line w2"
  have read3: "ReadDir env ?w3 = Inr ?entries"
    using src readable w2 by (simp add: ReadDir_def)
  obtain src' lines' where
    "mergeEntries (sameDevice env) ?entries (?entries, ?old, journal w2 @ [?line])
       = (src', ?new, (journal w2 @ [?line]) @ lines')"
    using merge_scenario_loop [OF wf] by blast
  then have loop: "mergeEntries (sameDevice env) ?entries (?entries, ?old, journal w2 @ [?line])
       = (src', ?new, journal w2 @ ?line # lines')"
    by simp
  let ?w4 = "logf (Line INFO ''merged the new seasons into the destination'')
               (logf (Line INFO ''removed the source directory'')
                  ((setTargetNode category ?name (Some (Dir ?new)) ?w3)
                     \<lparr> source := None, journal := journal w2 @ ?line # lines' \<rparr>))"
  have run: "placeAndRecord env nfoPath nfo True countries category w
               = persistAndDetect env nfo True category ?name r ?w4"
    using MkdirAll_existing [OF dst]
    by (simp add: placeAndRecord_def Let_def prep target2 read2 scenario_seasons read3 loop
          del: mergeEntries.simps)
  have "targetNode category ?name ?w4 = Some (Dir ?new)"
    by (simp add: targetNode_def setTargetNode_def setEntry_def logf_def)
  moreover have "?line \<in> set (journal ?w4)"
    by (simp add: logf_def)
  moreover have "source ?w4 = None"
    by (simp add: logf_def)
  ultimately show ?thesis
    using run by blast
qed

subsection \<open>The merge loop on any two listings\<close>















lemma sample_name: "filepath_Base (filepath_Dir samplePath) = zhMoonChild"
  unfolding samplePath_def zhMoonChild_def by code_simp

lemma sample_targets:
  "targetNode CategoryJpKrShow zhMoonChild mergeWorld = Some libraryFirstSeason"
  "targetNode CategoryJpKrShow zhMoonChild repeatWorld = Some libraryFirstSeason"
  by (simp_all add: targetNode_def mergeWorld_def repeatWorld_def)







lemma classify_sample:
  "ClassifyAndMove offlineEnv samplePath mergeWorld
     = placeAndRecord offlineEnv samplePath sampleSeriesNFO True [zhJapan, zhChina] CategoryJpKrShow
         (logf (Line WARNING ''production countries lookup failed, using the countries of the NFO'')
            mergeWorld)"
proof -
  have parse: "ParseNFO offlineEnv samplePath = Inr sampleSeriesNFO" "tables offlineEnv = cjkTables"
    by (simp_all add: offlineEnv_def)
  have listing: "ReadDir offlineEnv mergeWorld
      = Inr [(''Season 1'', Dir [(''e1.mkv'', File ''season 1, new copy'')]),
             (''Season 2'', Dir [(''e1.mkv'', File ''season 2'')]),
             (''tvshow.nfo'', File ''nfo, new copy'')]"
    by (simp add: ReadDir_def offlineEnv_def mergeWorld_def sourceSeasons_def)
  have count: "countNFO cjkTables
       [(''Season 1'', Dir [(''e1.mkv'', File ''season 1, new copy'')]),
        (''Season 2'', Dir [(''e1.mkv'', File ''season 2'')]),
        (''tvshow.nfo'', File ''nfo, new copy'')] = 1"
    by code_simp
  have resolved: "isNFOResolved cjkTables sampleSeriesNFO"
    by (simp add: isNFOResolved_def sampleSeriesNFO_def zhMoonChild_def)
  have tv: "IsTVShow sampleSeriesNFO"
    by (simp add: IsTVShow_def sampleSeriesNFO_def)
  have countries: "chooseCountries offlineEnv sampleSeriesNFO True mergeWorld
      = ([zhJapan, zhChina],
         logf (Line WARNING ''production countries lookup failed, using the countries of the NFO'')
           mergeWorld)"
    by (simp add: chooseCountries_def offlineEnv_def sampleSeriesNFO_def)
  have category: "DetermineCategory cjkTables [zhJapan, zhChina] True (nfo_Genres sampleSeriesNFO)
      = Inr CategoryJpKrShow"
    unfolding sampleSeriesNFO_def by code_simp
  have project: "\<not> isProjectDirectory (source mergeWorld)"
    unfolding mergeWorld_def sourceSeasons_def by code_simp
  have chinese: "IsSimplifiedChinese cjkTables (nfo_Title sampleSeriesNFO)"
    "\<not> list_ex (\<lambda>genre. \<not> IsSimplifiedChinese cjkTables genre) (nfo_Genres sampleSeriesNFO)"
    unfolding sampleSeriesNFO_def by code_simp+
  show ?thesis
    by (simp add: ClassifyAndMove_def parse listing count resolved tv countries category project
          chinese)
qed


text \<open>
  C3. After a merge only the emptied source directory is to be removed, and entries that
  were skipped are to stay. The code removes the source directory with everything left in
  it. In the run below the first season and the metadata file of the source are skipped,
  because the destination has entries of those names, and the destination keeps its own
  copies; after the call the source directory is gone, and with it the skipped copies.
\<close>

theorem merge_removes_skipped_entries:
  "source mergeWorld = Some sourceSeasons
   \<and> fst (ClassifyAndMove offlineEnv samplePath mergeWorld) = None
   \<and> source (snd (ClassifyAndMove offlineEnv samplePath mergeWorld)) = None
   \<and> targetNode CategoryJpKrShow zhMoonChild (snd (ClassifyAndMove offlineEnv samplePath mergeWorld))
       = Some libraryBothSeasons"
proof -
  let ?w = "logf (Line WARNING ''production countries lookup failed, using the countries of the NFO'')
              mergeWorld"
  have src: "source ?w
      = Some (Dir [(''Season 1'', Dir [(''e1.mkv'', File ''season 1, new copy'')]),
                   (''Season 2'', Dir [(''e1.mkv'', File ''season 2'')]),
                   (''tvshow.nfo'', File ''nfo, new copy'')])"
    by (simp add: mergeWorld_def sourceSeasons_def)
  have dst: "targetNode CategoryJpKrShow (filepath_Base (filepath_Dir samplePath)) ?w
      = Some (Dir [(''Season 1'', Dir [(''e1.mkv'', File ''season 1, old copy'')]),
                   (''tvshow.nfo'', File ''nfo, old copy'')])"
    using targetNode_cong [of ?w mergeWorld CategoryJpKrShow zhMoonChild]
    by (simp add: sample_name sample_targets libraryFirstSeason_def)
  have readable: "mediaDirReadable offlineEnv"
    by (simp add: offlineEnv_def)
  have wf: "sameDevice offlineEnv \<or> wellFormedEntries [(''e1.mkv'', File ''season 2'')]"
    by simp
  obtain r w4 where
    run: "placeAndRecord offlineEnv samplePath sampleSeriesNFO True [zhJapan, zhChina]
            CategoryJpKrShow ?w
          = persistAndDetect offlineEnv sampleSeriesNFO True CategoryJpKrShow
              (filepath_Base (filepath_Dir samplePath)) r w4"
    and gone: "source w4 = None"
    and target4: "targetNode CategoryJpKrShow (filepath_Base (filepath_Dir samplePath)) w4
          = Some (Dir [(''Season 1'', Dir [(''e1.mkv'', File ''season 1, old copy'')]),
                       (''Season 2'', Dir [(''e1.mkv'', File ''season 2'')]),
                       (''tvshow.nfo'', File ''nfo, old copy'')])"
    using merge_scenario_run [OF src dst readable wf, of sampleSeriesNFO "[zhJapan, zhChina]"]
    by blast
  have "source mergeWorld = Some sourceSeasons"
    by (simp add: mergeWorld_def)
  moreover have "fst (ClassifyAndMove offlineEnv samplePath mergeWorld) = None"
    unfolding classify_sample run by (rule persistAndDetect_frame)
  moreover have "source (snd (ClassifyAndMove offlineEnv samplePath mergeWorld)) = None"
    unfolding classify_sample run using gone by (simp add: persistAndDetect_frame)
  moreover have "targetNode CategoryJpKrShow zhMoonChild
                   (snd (ClassifyAndMove offlineEnv samplePath mergeWorld)) = Some libraryBothSeasons"
    unfolding classify_sample run
    using targetNode_cong [OF persistAndDetect_frame(3)] target4
    by (simp add: sample_name libraryBothSeasons_def)
  ultimately show ?thesis by simp
qed

lemma series_row_not_found:
  assumes "Season r = []" and "sqlLike ''%Show'' (Category r0)"
  shows "\<not> existingRecordQuery r (insertedRow now newId r0)"
  using assms by (simp add: existingRecordQuery_def insertedRow_def columnNotLike_def)

text \<open>
  C5. Detection is to write the completeness flag back to the catalog record of the series.
  For a series without a season number it does not reach that record: with both seasons on
  disk and a season count of 2 the flag is computed as complete, but the upsert that
  carries it inserts a second row, and the row of the series stays incomplete.
\<close>

theorem completeness_flag_misses_owner:
  "map (\<lambda>row. (c_id row, c_is_complete row)) (media_records (store recordedWorld))
     = [(1, Some False)]
   \<and> fst (DetectMissingSeasonsAndEpisodes onlineEnv (Some libraryBothSeasons) sampleSeriesRecord
            recordedWorld) = None
   \<and> IsComplete (fst (snd (DetectMissingSeasonsAndEpisodes onlineEnv (Some libraryBothSeasons)
            sampleSeriesRecord recordedWorld)))
   \<and> map (\<lambda>row. (c_id row, c_is_complete row))
        (media_records (store (snd (snd (DetectMissingSeasonsAndEpisodes onlineEnv
            (Some libraryBothSeasons) sampleSeriesRecord recordedWorld)))))
     = [(1, Some False), (2, Some True)]"
proof -
  have fields: "Season sampleSeriesRecord = []" "Category sampleSeriesRecord = CategoryJpKrShow"
      "TMDbID sampleSeriesRecord = ''1399''" "IsComplete sampleSeriesRecord = False"
    by (simp_all add: sampleSeriesRecord_def zeroMediaRecord_def)
  have stored: "store recordedWorld
      = emptyDatabase \<lparr> media_records := [insertedRow 100 1 sampleSeriesRecord],
                         media_records_seq := 1 \<rparr>"
    by (simp add: recordedWorld_def InsertOrUpdateMediaRecord_def emptyDatabase_def nextRowId_def)
  have service: "GetTVShowSeasons onlineEnv ''1399'' = Inr 2"
    by (simp add: onlineEnv_def offlineEnv_def)
  have on_disk: "GetExistingSeasons (Some libraryBothSeasons) = Inr [1, 2]"
    by (simp add: GetExistingSeasons_def libraryBothSeasons_def seasonDirs_def season_numbers)
  have range: "[1..2] = [1, 2 :: int]"
    by (simp add: upto_rec1)
  have nothing_missing:
    "recordMissingSeasons onlineEnv sampleSeriesRecord [1, 2] [1, 2] recordedWorld = recordedWorld"
    by simp
  have not_found: "\<not> existingRecordQuery (sampleSeriesRecord \<lparr> IsComplete := True \<rparr>)
      (insertedRow 100 1 sampleSeriesRecord)"
    by (rule series_row_not_found) (simp_all add: fields like_JpKrShow)
  have upsert: "InsertOrUpdateMediaRecord t (sampleSeriesRecord \<lparr> IsComplete := True \<rparr>)
        (store recordedWorld)
      = (None, emptyDatabase
           \<lparr> media_records := [insertedRow 100 1 sampleSeriesRecord,
                                insertedRow t 2 (sampleSeriesRecord \<lparr> IsComplete := True \<rparr>)],
             media_records_seq := 2 \<rparr>)" for t
    by (simp add: InsertOrUpdateMediaRecord_def stored emptyDatabase_def nextRowId_def not_found)
  have complete: "c_is_complete (insertedRow now newId r) = Some (IsComplete r)" for now newId r
    by (simp add: insertedRow_def)
  have before: "map (\<lambda>row. (c_id row, c_is_complete row)) (media_records (store recordedWorld))
      = [(1, Some False)]"
    by (simp add: stored complete fields)
  have run: "DetectMissingSeasonsAndEpisodes onlineEnv (Some libraryBothSeasons) sampleSeriesRecord
        recordedWorld
      = (None, sampleSeriesRecord \<lparr> IsComplete := True \<rparr>,
         recordedWorld
           \<lparr> store := emptyDatabase
                \<lparr> media_records := [insertedRow 100 1 sampleSeriesRecord,
                     insertedRow (clock onlineEnv (tick recordedWorld)) 2
                       (sampleSeriesRecord \<lparr> IsComplete := True \<rparr>)],
                  media_records_seq := 2 \<rparr>,
             tick := Suc (tick recordedWorld) \<rparr>)"
    by (simp add: DetectMissingSeasonsAndEpisodes_def fields service on_disk range nothing_missing
          Let_def upsert logError_def)
  show ?thesis
    unfolding run by (simp add: before complete fields)
qed

section \<open>Properties of a call with the metadata service down\<close>












end
